theory Spec2Isabelle
  imports
    Complex_Main
    "HOL-Library.Log_Nat"
    "HOL-Library.AList"
    "HOL-Library.Multiset"
    "HOL-Library.List_Lexorder"
    "HOL-Library.Product_Lexorder"
begin

section \<open>ECMAScript numbers\<close>

text \<open>
  The two function nodes (the WeatherLink Live converter and \<^verbatim>\<open>airlink.js\<close>) are
  JavaScript. A JavaScript Number is an IEEE 754 binary64 value. A finite Number is
  modelled by the rational it denotes (constructor \<open>Fin\<close>); \<open>fl\<close> rounds an exact
  rational result to the nearest binary64 value, ties to even, with gradual underflow
  and overflow to an infinity. Negative zero is identified with zero: the program never
  divides by a computed value, and \<^verbatim>\<open>String(-0)\<close> is \<^verbatim>\<open>"0"\<close>, so its output
  cannot tell the two apart.
\<close>

datatype jsnum = NaN | PosInf | NegInf | Fin rat

text \<open>The exceptions the built-ins used by the program can throw.\<close>

datatype exn = TypeError | RangeError

text \<open>Powers of two and ten with an integer exponent.\<close>

definition pow2 :: "int \<Rightarrow> rat" where
  "pow2 k = (if 0 \<le> k then 2 ^ nat k else 1 / 2 ^ nat (- k))"

definition pow10 :: "int \<Rightarrow> rat" where
  "pow10 k = (if 0 \<le> k then 10 ^ nat k else 1 / 10 ^ nat (- k))"

text \<open>
  \<open>ilog2 q\<close> is the binary exponent \<open>\<lfloor>log\<^sub>2 q\<rfloor>\<close> of a positive rational, from the bit
  lengths of its numerator and denominator.
\<close>

definition ilog2 :: "rat \<Rightarrow> int" where
  "ilog2 q = (case quotient_of q of (a, b) \<Rightarrow>
     (let d = bitlen a - bitlen b in if pow2 d \<le> q then d else d - 1))"

definition round_half_even :: "rat \<Rightarrow> int" where
  "round_half_even x = (let f = \<lfloor>x\<rfloor>; d = x - of_int f in
     if d < 1 / 2 then f else if 1 / 2 < d then f + 1 else if even f then f else f + 1)"

text \<open>
  Rounding to binary64: 53 significant bits, exponents from \<open>-1022\<close> (below which the
  spacing stays \<open>2\<^sup>-\<^sup>1\<^sup>0\<^sup>7\<^sup>4\<close>) to \<open>1023\<close>.
\<close>

definition fl :: "rat \<Rightarrow> jsnum" where
  "fl q = (if q = 0 then Fin 0 else
     (let e = ilog2 \<bar>q\<bar> in
      if 1024 \<le> e then (if 0 < q then PosInf else NegInf)
      else
       (let u = pow2 (max e (- 1022) - 52);
            m = round_half_even (\<bar>q\<bar> / u)
        in if e = 1023 \<and> m = 2 ^ 53 then (if 0 < q then PosInf else NegInf)
           else Fin (if 0 < q then of_int m * u else - (of_int m * u)))))"

text \<open>
  The arithmetic operators on Numbers that the converters use: \<^verbatim>\<open>-\<close>, \<^verbatim>\<open>*\<close>
  and \<^verbatim>\<open>/\<close>, each the exact result rounded once.
\<close>

definition js_neg :: "jsnum \<Rightarrow> jsnum" where
  "js_neg x = (case x of NaN \<Rightarrow> NaN | PosInf \<Rightarrow> NegInf | NegInf \<Rightarrow> PosInf | Fin a \<Rightarrow> Fin (- a))"

definition js_add :: "jsnum \<Rightarrow> jsnum \<Rightarrow> jsnum" where
  "js_add x y = (case (x, y) of
       (Fin a, Fin b) \<Rightarrow> fl (a + b)
     | (NaN, _) \<Rightarrow> NaN
     | (_, NaN) \<Rightarrow> NaN
     | (PosInf, NegInf) \<Rightarrow> NaN
     | (NegInf, PosInf) \<Rightarrow> NaN
     | (PosInf, _) \<Rightarrow> PosInf
     | (NegInf, _) \<Rightarrow> NegInf
     | (Fin a, i) \<Rightarrow> i)"

definition js_sub :: "jsnum \<Rightarrow> jsnum \<Rightarrow> jsnum" where
  "js_sub x y = js_add x (js_neg y)"

definition is_negative :: "jsnum \<Rightarrow> bool" where
  "is_negative x = (case x of NegInf \<Rightarrow> True | Fin a \<Rightarrow> a < 0 | _ \<Rightarrow> False)"

definition js_mul :: "jsnum \<Rightarrow> jsnum \<Rightarrow> jsnum" where
  "js_mul x y = (case (x, y) of
       (Fin a, Fin b) \<Rightarrow> fl (a * b)
     | _ \<Rightarrow> if x = NaN \<or> y = NaN \<or> x = Fin 0 \<or> y = Fin 0 then NaN
            else if is_negative x = is_negative y then PosInf else NegInf)"

definition js_div :: "jsnum \<Rightarrow> jsnum \<Rightarrow> jsnum" where
  "js_div x y = (case (x, y) of
       (Fin a, Fin b) \<Rightarrow>
         if b = 0 then (if a = 0 then NaN else if 0 < a then PosInf else NegInf)
         else fl (a / b)
     | (Fin a, PosInf) \<Rightarrow> Fin 0
     | (Fin a, NegInf) \<Rightarrow> Fin 0
     | (PosInf, Fin b) \<Rightarrow> if b < 0 then NegInf else PosInf
     | (NegInf, Fin b) \<Rightarrow> if b < 0 then PosInf else NegInf
     | _ \<Rightarrow> NaN)"

subsection \<open>Number to string\<close>

text \<open>
  \<^verbatim>\<open>Number::toString\<close> (radix 10) of ECMA-262: the shortest decimal digit string \<open>s\<close>
  (of \<open>k\<close> digits) and exponent \<open>n\<close> with \<open>s \<times> 10\<^sup>n\<^sup>-\<^sup>k\<close> rounding to the Number, the
  digits closest to it when several qualify, rendered in positional notation for
  \<open>-6 < n \<le> 21\<close> and in exponent notation otherwise. \<open>decade x\<close> is the \<open>n\<close> with
  \<open>10\<^sup>n\<^sup>-\<^sup>1 \<le> x < 10\<^sup>n\<close>; seventeen digits always suffice for a binary64 value.
\<close>

definition digit_char :: "int \<Rightarrow> char" where
  "digit_char d = ''0123456789'' ! nat (d mod 10)"

function digits :: "int \<Rightarrow> string" where
  "digits n = (if n < 10 then [digit_char n] else digits (n div 10) @ [digit_char n])"
  by pat_completeness auto
termination
  by (relation "measure nat") auto

declare digits.simps [simp del]

definition decade :: "rat \<Rightarrow> int" where
  "decade x = (if 1 \<le> x then int (length (digits \<lfloor>x\<rfloor>))
     else (let j = int (length (digits \<lfloor>1 / x\<rfloor>))
           in if 1 / x = pow10 (j - 1) then 2 - j else 1 - j))"

definition candidate :: "rat \<Rightarrow> int \<Rightarrow> nat \<Rightarrow> (int \<times> int) option" where
  "candidate x n0 k =
     (let g = pow10 (n0 - int k);
          lo = \<lfloor>x / g\<rfloor>;
          hi = lo + 1;
          ok_lo = (fl (of_int lo * g) = fl x);
          ok_hi = (fl (of_int hi * g) = fl x);
          up = (if hi = 10 ^ k then (1, n0 + 1) else (hi, n0))
      in if ok_lo \<and> ok_hi then
           (let dl = x - of_int lo * g; dh = of_int hi * g - x
            in if dl < dh \<or> (dl = dh \<and> even lo) then Some (lo, n0) else Some up)
         else if ok_lo then Some (lo, n0)
         else if ok_hi then Some up
         else None)"

fun shortest :: "rat \<Rightarrow> int \<Rightarrow> nat \<Rightarrow> nat \<Rightarrow> int \<times> int" where
  "shortest x n0 k 0 = (\<lfloor>x / pow10 (n0 - int k)\<rfloor>, n0)"
| "shortest x n0 k (Suc fuel) =
     (case candidate x n0 k of Some r \<Rightarrow> r | None \<Rightarrow> shortest x n0 (Suc k) fuel)"

definition render :: "int \<Rightarrow> int \<Rightarrow> string" where
  "render s n =
     (let ds = digits s; k = int (length ds)
      in if k \<le> n \<and> n \<le> 21 then ds @ replicate (nat (n - k)) (CHR ''0'')
         else if 0 < n \<and> n \<le> 21 then take (nat n) ds @ ''.'' @ drop (nat n) ds
         else if - 6 < n \<and> n \<le> 0 then ''0.'' @ replicate (nat (- n)) (CHR ''0'') @ ds
         else (let e = n - 1;
                   es = (if e < 0 then ''-'' else ''+'') @ digits \<bar>e\<bar>
               in if k = 1 then ds @ ''e'' @ es
                  else take 1 ds @ ''.'' @ drop 1 ds @ ''e'' @ es))"

definition NumberToString :: "jsnum \<Rightarrow> string" where
  "NumberToString x = (case x of
       NaN \<Rightarrow> ''NaN''
     | PosInf \<Rightarrow> ''Infinity''
     | NegInf \<Rightarrow> ''-Infinity''
     | Fin q \<Rightarrow>
         if q = 0 then ''0''
         else (case shortest \<bar>q\<bar> (decade \<bar>q\<bar>) 1 17 of (s, n) \<Rightarrow>
                 (if q < 0 then ''-'' else '''') @ render s n))"

text \<open>
  \<^verbatim>\<open>Number.prototype.toFixed(f)\<close>: a RangeError for more than 100 digits, the plain
  string of a non-finite Number or of one at least \<open>10\<^sup>2\<^sup>1\<close>, otherwise the integer \<open>n\<close>
  with \<open>n / 10\<^sup>f\<close> nearest the exact value (the larger \<open>n\<close> on a tie), padded with zeros
  and with the decimal point before its last \<open>f\<close> digits.
\<close>

definition toFixed :: "jsnum \<Rightarrow> nat \<Rightarrow> exn + string" where
  "toFixed x f =
     (if 100 < f then Inl RangeError
      else case x of
          Fin q \<Rightarrow>
            (let s = (if q < 0 then ''-'' else ''''); a = \<bar>q\<bar>
             in if 10 ^ 21 \<le> a then Inr (s @ NumberToString (Fin a))
                else
                 (let n = \<lfloor>a * 10 ^ f + 1 / 2\<rfloor>;
                      m = digits n;
                      m' = (if f = 0 then m
                            else (let z = (if length m \<le> f then replicate (f + 1 - length m) (CHR ''0'') @ m else m);
                                      k = length z
                                  in take (k - f) z @ ''.'' @ drop (k - f) z))
                  in Inr (s @ m')))
        | _ \<Rightarrow> Inr (NumberToString x))"



section \<open>JavaScript values\<close>

text \<open>
  The values a parsed JSON document can hold, with \<^verbatim>\<open>undefined\<close> for what a property
  read yields when the key is missing, and the built-in functions that an object inherits
  from \<^verbatim>\<open>Object.prototype\<close>, each by its name. Strings are lists of characters with
  codes below 256. An object is the list of its own enumerable entries in
  \<^verbatim>\<open>Object.entries\<close> order; in a parsed document no entry is a function.
\<close>

datatype jsval =
    JUndefined
  | JNull
  | JBool bool
  | JNum jsnum
  | JStr string
  | JArr "jsval list"
  | JObj "(string \<times> jsval) list"
  | JFunction string

text \<open>Sequencing of computations that may throw; the first exception ends the sequence.\<close>

definition bind :: "exn + 'a \<Rightarrow> ('a \<Rightarrow> exn + 'b) \<Rightarrow> exn + 'b" where
  "bind m f = (case m of Inl e \<Rightarrow> Inl e | Inr x \<Rightarrow> f x)"

fun sequence :: "(exn + 'a) list \<Rightarrow> exn + 'a list" where
  "sequence [] = Inr []"
| "sequence (m # ms) = bind m (\<lambda>x. bind (sequence ms) (\<lambda>xs. Inr (x # xs)))"

text \<open>\<^verbatim>\<open>Array.prototype.map\<close> with a callback that may throw.\<close>

definition traverse :: "('a \<Rightarrow> exn + 'b) \<Rightarrow> 'a list \<Rightarrow> exn + 'b list" where
  "traverse f xs = sequence (map f xs)"

text \<open>\<^verbatim>\<open>v == null\<close>: true of \<^verbatim>\<open>null\<close> and \<^verbatim>\<open>undefined\<close> only.\<close>

definition nullish :: "jsval \<Rightarrow> bool" where
  "nullish v \<longleftrightarrow> v = JNull \<or> v = JUndefined"

text \<open>Truthiness (\<^verbatim>\<open>ToBoolean\<close>), as tested by \<^verbatim>\<open>!v\<close>, \<^verbatim>\<open>if (v)\<close> and \<^verbatim>\<open>a || b\<close>.\<close>

fun truthy :: "jsval \<Rightarrow> bool" where
  "truthy JUndefined = False"
| "truthy JNull = False"
| "truthy (JBool b) = b"
| "truthy (JNum x) = (x \<noteq> NaN \<and> x \<noteq> Fin 0)"
| "truthy (JStr s) = (s \<noteq> [])"
| "truthy (JArr xs) = True"
| "truthy (JObj kvs) = True"
| "truthy (JFunction n) = True"

text \<open>\<^verbatim>\<open>a || b\<close> on values.\<close>

definition js_or :: "jsval \<Rightarrow> jsval \<Rightarrow> jsval" where
  "js_or a b = (if truthy a then a else b)"

text \<open>\<^verbatim>\<open>Array.prototype.join\<close> on strings already converted.\<close>

fun join :: "string \<Rightarrow> string list \<Rightarrow> string" where
  "join sep [] = []"
| "join sep [x] = x"
| "join sep (x # y # ys) = x @ sep @ join sep (y # ys)"

text \<open>
  \<^verbatim>\<open>ToString\<close>, as applied by \<^verbatim>\<open>String(v)\<close> and by template literals. An array
  joins its elements with commas, \<^verbatim>\<open>null\<close> and \<^verbatim>\<open>undefined\<close> elements as empty
  strings and the others converted in turn. An object is converted by
  \<^verbatim>\<open>OrdinaryToPrimitive\<close>: the \<^verbatim>\<open>toString\<close> it inherits gives
  \<^verbatim>\<open>[object Object]\<close>; with an own entry \<^verbatim>\<open>toString\<close>, which is not callable,
  \<^verbatim>\<open>valueOf\<close> is tried, returns the object or is not callable either, and the
  conversion throws a TypeError. A built-in function prints as V8 prints it.
\<close>

fun ToString :: "jsval \<Rightarrow> exn + string" where
  "ToString JUndefined = Inr ''undefined''"
| "ToString JNull = Inr ''null''"
| "ToString (JBool b) = Inr (if b then ''true'' else ''false'')"
| "ToString (JNum x) = Inr (NumberToString x)"
| "ToString (JStr s) = Inr s"
| "ToString (JArr xs) =
     bind (sequence (map (\<lambda>x. if x = JNull \<or> x = JUndefined then Inr [] else ToString x) xs))
       (\<lambda>strs. Inr (join '','' strs))"
| "ToString (JObj kvs) =
     (case map_of kvs ''toString'' of None \<Rightarrow> Inr ''[object Object]'' | Some _ \<Rightarrow> Inl TypeError)"
| "ToString (JFunction n) = Inr (''function '' @ n @ ''() { [native code] }'')"

subsection \<open>String to number\<close>

text \<open>
  \<^verbatim>\<open>StringToNumber\<close>: the \<^verbatim>\<open>StringNumericLiteral\<close> grammar of ECMA-262.
  Surrounding white space and line terminators are dropped (those with a code below
  256: tab, line feed, vertical tab, form feed, carriage return, space and no-break
  space); the empty string is \<open>0\<close>; a literal is a \<^verbatim>\<open>0x\<close>, \<^verbatim>\<open>0o\<close> or \<^verbatim>\<open>0b\<close>
  integer, or an optionally signed \<^verbatim>\<open>Infinity\<close> or decimal with optional fraction and
  exponent; anything else is \<^verbatim>\<open>NaN\<close>.
\<close>

definition is_ws :: "char \<Rightarrow> bool" where
  "is_ws c \<longleftrightarrow>
     c \<in> set [CHR 0x09, CHR 0x0A, CHR 0x0B, CHR 0x0C, CHR 0x0D, CHR 0x20, CHR 0xA0]"

definition trim :: "string \<Rightarrow> string" where
  "trim s = rev (dropWhile is_ws (rev (dropWhile is_ws s)))"

definition digit_val :: "char \<Rightarrow> int option" where
  "digit_val c = map_of (zip ''0123456789abcdefABCDEF''
     [0, 1, 2, 3, 4, 5, 6, 7, 8, 9, 10, 11, 12, 13, 14, 15, 10, 11, 12, 13, 14, 15]) c"

definition is_digit :: "int \<Rightarrow> char \<Rightarrow> bool" where
  "is_digit radix c = (case digit_val c of Some d \<Rightarrow> d < radix | None \<Rightarrow> False)"

definition digits_value :: "int \<Rightarrow> string \<Rightarrow> int" where
  "digits_value radix ds = foldl (\<lambda>n c. radix * n + (case digit_val c of Some d \<Rightarrow> d | None \<Rightarrow> 0)) 0 ds"

definition parse_digits :: "int \<Rightarrow> string \<Rightarrow> int option" where
  "parse_digits radix ds =
     (if ds \<noteq> [] \<and> list_all (is_digit radix) ds then Some (digits_value radix ds) else None)"

definition NonDecimalIntegerLiteral :: "string \<Rightarrow> int option" where
  "NonDecimalIntegerLiteral t = (case t of
       z # c # ds \<Rightarrow>
         if z \<noteq> CHR ''0'' then None
         else if c = CHR ''x'' \<or> c = CHR ''X'' then parse_digits 16 ds
         else if c = CHR ''o'' \<or> c = CHR ''O'' then parse_digits 8 ds
         else if c = CHR ''b'' \<or> c = CHR ''B'' then parse_digits 2 ds
         else None
     | _ \<Rightarrow> None)"

definition ExponentPart :: "string \<Rightarrow> int option" where
  "ExponentPart t = (case t of
       [] \<Rightarrow> Some 0
     | c # r \<Rightarrow>
         if c = CHR ''e'' \<or> c = CHR ''E'' then
           (case r of
              CHR ''+'' # ds \<Rightarrow> parse_digits 10 ds
            | CHR ''-'' # ds \<Rightarrow> map_option uminus (parse_digits 10 ds)
            | _ \<Rightarrow> parse_digits 10 r)
         else None)"

definition StrUnsignedDecimalLiteral :: "string \<Rightarrow> rat option" where
  "StrUnsignedDecimalLiteral t =
     (let ip = takeWhile (is_digit 10) t;
          r1 = dropWhile (is_digit 10) t;
          fp = (case r1 of CHR ''.'' # r \<Rightarrow> takeWhile (is_digit 10) r | _ \<Rightarrow> []);
          r2 = (case r1 of CHR ''.'' # r \<Rightarrow> dropWhile (is_digit 10) r | _ \<Rightarrow> r1)
      in if ip = [] \<and> fp = [] then None
         else case ExponentPart r2 of
             None \<Rightarrow> None
           | Some e \<Rightarrow> Some (of_int (digits_value 10 (ip @ fp)) * pow10 (e - int (length fp))))"

definition StrDecimalLiteral :: "string \<Rightarrow> jsnum option" where
  "StrDecimalLiteral t =
     (let neg = (case t of c # _ \<Rightarrow> c = CHR ''-'' | [] \<Rightarrow> False);
          u = (case t of c # r \<Rightarrow> if c = CHR ''-'' \<or> c = CHR ''+'' then r else t | [] \<Rightarrow> t)
      in if u = ''Infinity'' then Some (if neg then NegInf else PosInf)
         else map_option (\<lambda>q. fl (if neg then - q else q)) (StrUnsignedDecimalLiteral u))"

definition StringToNumber :: "string \<Rightarrow> jsnum" where
  "StringToNumber s =
     (let t = trim s
      in if t = [] then Fin 0
         else case NonDecimalIntegerLiteral t of
             Some n \<Rightarrow> fl (of_int n)
           | None \<Rightarrow> (case StrDecimalLiteral t of Some x \<Rightarrow> x | None \<Rightarrow> NaN))"

text \<open>
  \<^verbatim>\<open>ToNumber\<close>, as applied by the arithmetic operators, unary \<^verbatim>\<open>+\<close> and
  \<^verbatim>\<open>Math.floor\<close>. Arrays, objects and functions convert through their string (the
  \<^verbatim>\<open>valueOf\<close> they inherit returns the object itself), and throw when that conversion
  throws.
\<close>

definition ToNumber :: "jsval \<Rightarrow> exn + jsnum" where
  "ToNumber v = (case v of
       JUndefined \<Rightarrow> Inr NaN
     | JNull \<Rightarrow> Inr (Fin 0)
     | JBool b \<Rightarrow> Inr (Fin (if b then 1 else 0))
     | JNum x \<Rightarrow> Inr x
     | JStr s \<Rightarrow> Inr (StringToNumber s)
     | _ \<Rightarrow> bind (ToString v) (\<lambda>s. Inr (StringToNumber s)))"

text \<open>\<^verbatim>\<open>Math.floor\<close>: the largest integer not above the argument; non-finite values pass.\<close>

definition Math_floor :: "jsval \<Rightarrow> exn + jsnum" where
  "Math_floor v =
     bind (ToNumber v) (\<lambda>x. Inr (case x of Fin q \<Rightarrow> Fin (of_int \<lfloor>q\<rfloor>) | _ \<Rightarrow> x))"

text \<open>
  The values that have a string, and with it a number: every value but an object with an
  own entry \<^verbatim>\<open>toString\<close> and an array that holds a value without a string.
\<close>

fun convertible :: "jsval \<Rightarrow> bool" where
  "convertible (JObj kvs) = (map_of kvs ''toString'' = None)"
| "convertible (JArr xs) = (\<forall>x \<in> set xs. convertible x)"
| "convertible v = True"

text \<open>\<^verbatim>\<open>Number.isNaN\<close>: true of the Number \<^verbatim>\<open>NaN\<close> only, with no coercion.\<close>

definition Number_isNaN :: "jsval \<Rightarrow> bool" where
  "Number_isNaN v \<longleftrightarrow> v = JNum NaN"

subsection \<open>Property access\<close>

text \<open>
  \<^verbatim>\<open>v[k]\<close>. Reading a property of \<^verbatim>\<open>null\<close> or \<^verbatim>\<open>undefined\<close> throws a
  TypeError. An object yields its own entry of that name; without one, the member of
  that name it inherits from \<^verbatim>\<open>Object.prototype\<close> (\<^verbatim>\<open>constructor\<close> is the function
  \<^verbatim>\<open>Object\<close>, \<^verbatim>\<open>__proto__\<close> is the prototype itself, an object with no entry of its
  own, and the others are functions of the same name); and \<^verbatim>\<open>undefined\<close> otherwise.
  On primitives and arrays the program reads only \<^verbatim>\<open>data\<close>, \<^verbatim>\<open>ts\<close>,
  \<^verbatim>\<open>conditions\<close>, \<^verbatim>\<open>did\<close>, \<^verbatim>\<open>data_structure_type\<close> and \<^verbatim>\<open>txid\<close>, which they
  do not have. \<open>opt_get\<close> is optional chaining \<^verbatim>\<open>v?.k\<close>, and \<open>opt_index0\<close> is
  \<^verbatim>\<open>v?.[0]\<close>, which also reads the first element of an array and the first character
  of a string.
\<close>

definition Object_prototype_functions :: "string list" where
  "Object_prototype_functions =
     [''__defineGetter__'', ''__defineSetter__'', ''hasOwnProperty'', ''__lookupGetter__'',
      ''__lookupSetter__'', ''isPrototypeOf'', ''propertyIsEnumerable'', ''toString'',
      ''valueOf'', ''toLocaleString'']"

definition inherited :: "string \<Rightarrow> jsval" where
  "inherited k =
     (if k = ''__proto__'' then JObj []
      else if k = ''constructor'' then JFunction ''Object''
      else if k \<in> set Object_prototype_functions then JFunction k
      else JUndefined)"

definition lookup :: "(string \<times> jsval) list \<Rightarrow> string \<Rightarrow> jsval" where
  "lookup kvs k = (case map_of kvs k of Some v \<Rightarrow> v | None \<Rightarrow> inherited k)"

definition get :: "jsval \<Rightarrow> string \<Rightarrow> exn + jsval" where
  "get v k = (case v of
       JUndefined \<Rightarrow> Inl TypeError
     | JNull \<Rightarrow> Inl TypeError
     | JObj kvs \<Rightarrow> Inr (lookup kvs k)
     | _ \<Rightarrow> Inr JUndefined)"

definition opt_get :: "jsval \<Rightarrow> string \<Rightarrow> jsval" where
  "opt_get v k = (case v of JObj kvs \<Rightarrow> lookup kvs k | _ \<Rightarrow> JUndefined)"

definition opt_index0 :: "jsval \<Rightarrow> jsval" where
  "opt_index0 v = (case v of
       JArr xs \<Rightarrow> (case xs of [] \<Rightarrow> JUndefined | x # _ \<Rightarrow> x)
     | JStr s \<Rightarrow> (case s of [] \<Rightarrow> JUndefined | c # _ \<Rightarrow> JStr [c])
     | JObj kvs \<Rightarrow> lookup kvs ''0''
     | _ \<Rightarrow> JUndefined)"

section \<open>Configuration\<close>

text \<open>
  The \<^verbatim>\<open>CONFIG\<close> constant of the WeatherLink Live node: the rain collector size in mm
  per tip, and a measurement name and static tag set for each category. The tag objects
  are given by their entries in declaration order.
\<close>

record category =
  measurement :: string
  tags :: "(string \<times> jsval) list"

record config =
  rainCupSizeMm :: jsnum
  outdoor :: category
  indoor :: category
  barometer :: category

definition CONFIG :: config where
  "CONFIG =
     \<lparr>rainCupSizeMm = fl (2 / 10),
      outdoor = \<lparr>measurement = ''outdoor_conditions'',
                 tags = [(''source'', JStr ''davis''), (''location'', JStr ''outside''),
                         (''friendly_name'', JStr ''Davis Outdoor ISS'')]\<rparr>,
      indoor = \<lparr>measurement = ''indoor_conditions'',
                tags = [(''source'', JStr ''davis''), (''location'', JStr ''indoor''),
                        (''friendly_name'', JStr ''Davis Indoor Console'')]\<rparr>,
      barometer = \<lparr>measurement = ''barometer'',
                   tags = [(''source'', JStr ''davis''), (''location'', JStr ''indoor''),
                           (''friendly_name'', JStr ''Davis Barometer'')]\<rparr>\<rparr>"

text \<open>The \<^verbatim>\<open>CONFIG\<close> constant of \<^verbatim>\<open>airlink.js\<close>.\<close>

definition AIRLINK_CONFIG :: category where
  "AIRLINK_CONFIG =
     \<lparr>measurement = ''air_quality'',
      tags = [(''source'', JStr ''davis_airlink''), (''location'', JStr ''outside''),
              (''friendly_name'', JStr ''Davis AirLink'')]\<rparr>"

section \<open>Unit conversion functions\<close>

text \<open>
  Each converter is \<^verbatim>\<open>x != null ? +(formula).toFixed(d) : null\<close>: the argument
  converted to a Number by the first arithmetic operator, the formula in Number
  arithmetic, its fixed-point string, and that string read back as a Number by unary
  plus. The decimal literals \<^verbatim>\<open>33.8639\<close> and \<^verbatim>\<open>0.44704\<close> denote the
  nearest binary64 values. \<^verbatim>\<open>airlink.js\<close> declares the same
  \<^verbatim>\<open>fahrenheitToCelsius\<close>.
\<close>

definition unary_plus :: "string \<Rightarrow> exn + jsval" where
  "unary_plus s = bind (ToNumber (JStr s)) (\<lambda>x. Inr (JNum x))"

definition fahrenheitToCelsius :: "jsval \<Rightarrow> exn + jsval" where
  "fahrenheitToCelsius f =
     (if \<not> nullish f
      then bind (ToNumber f) (\<lambda>x.
             bind (toFixed (js_div (js_mul (js_sub x (Fin 32)) (Fin 5)) (Fin 9)) 1) unary_plus)
      else Inr JNull)"

definition inHgToHPa :: "jsval \<Rightarrow> exn + jsval" where
  "inHgToHPa inHg =
     (if \<not> nullish inHg
      then bind (ToNumber inHg) (\<lambda>x.
             bind (toFixed (js_mul x (fl (338639 / 10000))) 1) unary_plus)
      else Inr JNull)"

definition inHgToHPaTrend :: "jsval \<Rightarrow> exn + jsval" where
  "inHgToHPaTrend inHg =
     (if \<not> nullish inHg
      then bind (ToNumber inHg) (\<lambda>x.
             bind (toFixed (js_mul x (fl (338639 / 10000))) 3) unary_plus)
      else Inr JNull)"

definition mphToMs :: "jsval \<Rightarrow> exn + jsval" where
  "mphToMs mph =
     (if \<not> nullish mph
      then bind (ToNumber mph) (\<lambda>x.
             bind (toFixed (js_mul x (fl (44704 / 100000))) 2) unary_plus)
      else Inr JNull)"

definition tipsToMm :: "jsval \<Rightarrow> exn + jsval" where
  "tipsToMm tips =
     (if \<not> nullish tips
      then bind (ToNumber tips) (\<lambda>x.
             bind (toFixed (js_mul x (rainCupSizeMm CONFIG)) 1) unary_plus)
      else Inr JNull)"

section \<open>Field schema definitions\<close>

text \<open>
  A schema entry has the InfluxDB type (\<^verbatim>\<open>'float'\<close> or \<^verbatim>\<open>'int'\<close>), an optional
  source key and an optional conversion function. A schema is the entry list of the
  schema object, in declaration order.
\<close>

record fieldspec =
  type :: string
  source :: "string option"
  convert :: "(jsval \<Rightarrow> exn + jsval) option"

definition OUTDOOR_SCHEMA :: "(string \<times> fieldspec) list" where
  "OUTDOOR_SCHEMA =
    [(''temp'', \<lparr>type = ''float'', source = None, convert = Some fahrenheitToCelsius\<rparr>),
     (''hum'', \<lparr>type = ''float'', source = None, convert = None\<rparr>),
     (''dew_point'', \<lparr>type = ''float'', source = None, convert = Some fahrenheitToCelsius\<rparr>),
     (''wet_bulb'', \<lparr>type = ''float'', source = None, convert = Some fahrenheitToCelsius\<rparr>),
     (''heat_index'', \<lparr>type = ''float'', source = None, convert = Some fahrenheitToCelsius\<rparr>),
     (''wind_chill'', \<lparr>type = ''float'', source = None, convert = Some fahrenheitToCelsius\<rparr>),
     (''thw_index'', \<lparr>type = ''float'', source = None, convert = Some fahrenheitToCelsius\<rparr>),
     (''thsw_index'', \<lparr>type = ''float'', source = None, convert = Some fahrenheitToCelsius\<rparr>),
     (''wind_speed_last'', \<lparr>type = ''float'', source = None, convert = Some mphToMs\<rparr>),
     (''wind_speed_avg_last_1_min'', \<lparr>type = ''float'', source = None, convert = Some mphToMs\<rparr>),
     (''wind_speed_avg_last_2_min'', \<lparr>type = ''float'', source = None, convert = Some mphToMs\<rparr>),
     (''wind_speed_hi_last_2_min'', \<lparr>type = ''float'', source = None, convert = Some mphToMs\<rparr>),
     (''wind_speed_avg_last_10_min'', \<lparr>type = ''float'', source = None, convert = Some mphToMs\<rparr>),
     (''wind_speed_hi_last_10_min'', \<lparr>type = ''float'', source = None, convert = Some mphToMs\<rparr>),
     (''wind_dir_last'', \<lparr>type = ''int'', source = None, convert = None\<rparr>),
     (''wind_dir_scalar_avg_last_1_min'', \<lparr>type = ''int'', source = None, convert = None\<rparr>),
     (''wind_dir_scalar_avg_last_2_min'', \<lparr>type = ''int'', source = None, convert = None\<rparr>),
     (''wind_dir_at_hi_speed_last_2_min'', \<lparr>type = ''int'', source = None, convert = None\<rparr>),
     (''wind_dir_scalar_avg_last_10_min'', \<lparr>type = ''int'', source = None, convert = None\<rparr>),
     (''wind_dir_at_hi_speed_last_10_min'', \<lparr>type = ''int'', source = None, convert = None\<rparr>),
     (''rain_rate_last'', \<lparr>type = ''float'', source = None, convert = Some tipsToMm\<rparr>),
     (''rain_rate_hi'', \<lparr>type = ''float'', source = None, convert = Some tipsToMm\<rparr>),
     (''rainfall_last_15_min'', \<lparr>type = ''float'', source = None, convert = Some tipsToMm\<rparr>),
     (''rain_rate_hi_last_15_min'', \<lparr>type = ''float'', source = None, convert = Some tipsToMm\<rparr>),
     (''rainfall_last_60_min'', \<lparr>type = ''float'', source = None, convert = Some tipsToMm\<rparr>),
     (''rainfall_last_24_hr'', \<lparr>type = ''float'', source = None, convert = Some tipsToMm\<rparr>),
     (''rainfall_daily'', \<lparr>type = ''float'', source = None, convert = Some tipsToMm\<rparr>),
     (''rainfall_monthly'', \<lparr>type = ''float'', source = None, convert = Some tipsToMm\<rparr>),
     (''rainfall_year'', \<lparr>type = ''float'', source = None, convert = Some tipsToMm\<rparr>),
     (''rain_storm'', \<lparr>type = ''float'', source = None, convert = Some tipsToMm\<rparr>),
     (''rain_storm_last'', \<lparr>type = ''float'', source = None, convert = Some tipsToMm\<rparr>),
     (''solar_rad'', \<lparr>type = ''int'', source = None, convert = None\<rparr>),
     (''uv_index'', \<lparr>type = ''float'', source = None, convert = None\<rparr>)]"

definition INDOOR_SCHEMA :: "(string \<times> fieldspec) list" where
  "INDOOR_SCHEMA =
    [(''temp_in'', \<lparr>type = ''float'', source = None, convert = Some fahrenheitToCelsius\<rparr>),
     (''hum_in'', \<lparr>type = ''float'', source = None, convert = None\<rparr>),
     (''dew_point_in'', \<lparr>type = ''float'', source = None, convert = Some fahrenheitToCelsius\<rparr>),
     (''heat_index_in'', \<lparr>type = ''float'', source = None, convert = Some fahrenheitToCelsius\<rparr>)]"

definition BAROMETER_SCHEMA :: "(string \<times> fieldspec) list" where
  "BAROMETER_SCHEMA =
    [(''bar_sea_level'', \<lparr>type = ''float'', source = None, convert = Some inHgToHPa\<rparr>),
     (''bar_absolute'', \<lparr>type = ''float'', source = None, convert = Some inHgToHPa\<rparr>),
     (''bar_trend'', \<lparr>type = ''float'', source = None, convert = Some inHgToHPaTrend\<rparr>)]"

text \<open>The \<^verbatim>\<open>FIELD_SCHEMA\<close> of \<^verbatim>\<open>airlink.js\<close>.\<close>

definition FIELD_SCHEMA :: "(string \<times> fieldspec) list" where
  "FIELD_SCHEMA =
    [(''temp'', \<lparr>type = ''float'', source = None, convert = Some fahrenheitToCelsius\<rparr>),
     (''hum'', \<lparr>type = ''float'', source = None, convert = None\<rparr>),
     (''dew_point'', \<lparr>type = ''float'', source = None, convert = Some fahrenheitToCelsius\<rparr>),
     (''heat_index'', \<lparr>type = ''float'', source = None, convert = Some fahrenheitToCelsius\<rparr>),
     (''wet_bulb'', \<lparr>type = ''float'', source = None, convert = Some fahrenheitToCelsius\<rparr>),
     (''pm_1'', \<lparr>type = ''float'', source = None, convert = None\<rparr>),
     (''pm_2p5'', \<lparr>type = ''float'', source = None, convert = None\<rparr>),
     (''pm_2p5_last_1_hour'', \<lparr>type = ''float'', source = None, convert = None\<rparr>),
     (''pm_2p5_last_3_hours'', \<lparr>type = ''float'', source = None, convert = None\<rparr>),
     (''pm_2p5_last_24_hours'', \<lparr>type = ''float'', source = None, convert = None\<rparr>),
     (''pm_2p5_nowcast'', \<lparr>type = ''float'', source = None, convert = None\<rparr>),
     (''pm_10'', \<lparr>type = ''float'', source = None, convert = None\<rparr>),
     (''pm_10_last_1_hour'', \<lparr>type = ''float'', source = None, convert = None\<rparr>),
     (''pm_10_last_3_hours'', \<lparr>type = ''float'', source = None, convert = None\<rparr>),
     (''pm_10_last_24_hours'', \<lparr>type = ''float'', source = None, convert = None\<rparr>),
     (''pm_10_nowcast'', \<lparr>type = ''float'', source = None, convert = None\<rparr>),
     (''pm_1_last'', \<lparr>type = ''int'', source = None, convert = None\<rparr>),
     (''pm_2p5_last'', \<lparr>type = ''int'', source = None, convert = None\<rparr>),
     (''pm_10_last'', \<lparr>type = ''int'', source = None, convert = None\<rparr>),
     (''pct_pm_data_last_1_hour'', \<lparr>type = ''int'', source = None, convert = None\<rparr>),
     (''pct_pm_data_last_3_hours'', \<lparr>type = ''int'', source = None, convert = None\<rparr>),
     (''pct_pm_data_last_24_hours'', \<lparr>type = ''int'', source = None, convert = None\<rparr>),
     (''pct_pm_data_nowcast'', \<lparr>type = ''int'', source = None, convert = None\<rparr>)]"

section \<open>Processing logic\<close>

subsection \<open>Escaping tag values\<close>

text \<open>
  \<^verbatim>\<open>s.replace(/c/g, r)\<close> for a single-character pattern replaces every occurrence of
  the character. \<open>escapeTagValue\<close> converts its argument to a string, which may throw,
  and applies the four replacements in the order of the source: backslash, comma, equals
  sign, space.
\<close>

definition backslash :: char where
  "backslash = CHR 0x5C"

definition replace_all :: "char \<Rightarrow> string \<Rightarrow> string \<Rightarrow> string" where
  "replace_all c r s = concat (map (\<lambda>x. if x = c then r else [x]) s)"

definition escapeTagValue :: "jsval \<Rightarrow> exn + string" where
  "escapeTagValue v =
     bind (ToString v) (\<lambda>s. Inr
       (replace_all (CHR '' '') [backslash, CHR '' '']
         (replace_all (CHR ''='') [backslash, CHR ''='']
           (replace_all (CHR '','') [backslash, CHR '','']
             (replace_all backslash [backslash, backslash] s)))))"

subsection \<open>Building fields from a schema\<close>

text \<open>
  A built field is \<^verbatim>\<open>{ value, type }\<close>. The loop of \<open>buildFields\<close> runs over the
  schema entries; \<^verbatim>\<open>continue\<close> goes on with the fields collected so far, and the
  assignment \<^verbatim>\<open>fields[fieldName] = ...\<close> replaces an entry of that name or appends
  a new one; under the name \<^verbatim>\<open>__proto__\<close> it sets the prototype of \<^verbatim>\<open>fields\<close>
  and adds no entry. A throwing property read or converter ends the loop with the
  exception.
  \<open>sourceKey\<close> is \<^verbatim>\<open>config.source || fieldName\<close>, and \<open>converted\<close> is the value after
  \<^verbatim>\<open>if (config.convert) value = config.convert(value)\<close>.
\<close>

record built =
  "value" :: jsval
  ftype :: string

definition sourceKey :: "string \<Rightarrow> fieldspec \<Rightarrow> string" where
  "sourceKey fieldName config =
     (case source config of Some k \<Rightarrow> if k \<noteq> [] then k else fieldName | None \<Rightarrow> fieldName)"

definition converted :: "fieldspec \<Rightarrow> jsval \<Rightarrow> exn + jsval" where
  "converted config v = (case convert config of Some f \<Rightarrow> f v | None \<Rightarrow> Inr v)"

definition assign :: "(string \<times> 'a) list \<Rightarrow> string \<Rightarrow> 'a \<Rightarrow> (string \<times> 'a) list" where
  "assign entries k v = (if k = ''__proto__'' then entries else AList.update k v entries)"

fun buildFields_loop ::
  "jsval \<Rightarrow> (string \<times> fieldspec) list \<Rightarrow> (string \<times> built) list \<Rightarrow> exn + (string \<times> built) list" where
  "buildFields_loop src [] flds = Inr flds"
| "buildFields_loop src ((fieldName, config) # rest) flds =
     bind (get src (sourceKey fieldName config)) (\<lambda>v.
       if nullish v then buildFields_loop src rest flds
       else bind (converted config v) (\<lambda>v'.
         if nullish v' \<or> Number_isNaN v' then buildFields_loop src rest flds
         else buildFields_loop src rest
                (assign flds fieldName \<lparr>value = v', ftype = type config\<rparr>)))"

definition buildFields :: "jsval \<Rightarrow> (string \<times> fieldspec) list \<Rightarrow> exn + (string \<times> built) list" where
  "buildFields src schema = buildFields_loop src schema []"

subsection \<open>Generating the line protocol string\<close>

text \<open>
  \<^verbatim>\<open>Array.prototype.sort\<close> with a comparison function is stable; for a consistent
  comparison function its result is the one a stable insertion sort computes. The key
  comparison \<^verbatim>\<open>a.localeCompare(b)\<close> is the host's locale-sensitive collation, which
  the language leaves to the implementation: it is a parameter \<open>localeCompare\<close> of the
  encoder, negative when \<open>a\<close> sorts before \<open>b\<close>, positive when after, zero otherwise.
  \<open>toLineProtocol\<close> builds the tag string, then the field string, and only then tests
  the field string; each may throw on a value that has no string or number.
\<close>

fun insert_by :: "('a \<Rightarrow> 'a \<Rightarrow> int) \<Rightarrow> 'a \<Rightarrow> 'a list \<Rightarrow> 'a list" where
  "insert_by cmp x [] = [x]"
| "insert_by cmp x (y # ys) = (if cmp x y \<le> 0 then x # y # ys else y # insert_by cmp x ys)"

definition sort_by :: "('a \<Rightarrow> 'a \<Rightarrow> int) \<Rightarrow> 'a list \<Rightarrow> 'a list" where
  "sort_by cmp xs = foldr (insert_by cmp) xs []"

definition encodeTag :: "string \<times> jsval \<Rightarrow> exn + string" where
  "encodeTag = (\<lambda>(k, v). bind (escapeTagValue v) (\<lambda>e. Inr (k @ ''='' @ e)))"

definition tagStr :: "(string \<Rightarrow> string \<Rightarrow> int) \<Rightarrow> (string \<times> jsval) list \<Rightarrow> exn + string" where
  "tagStr localeCompare tgs =
     bind (traverse encodeTag
             (sort_by (\<lambda>(a, _) (b, _). localeCompare a b)
               (filter (\<lambda>(_, v). \<not> nullish v) tgs)))
       (\<lambda>segments. Inr (join '','' segments))"

definition encodeField :: "string \<times> built \<Rightarrow> exn + string" where
  "encodeField = (\<lambda>(k, f).
     if ftype f = ''int''
     then bind (Math_floor (value f)) (\<lambda>n. Inr (k @ ''='' @ NumberToString n @ ''i''))
     else bind (ToString (value f)) (\<lambda>s. Inr (k @ ''='' @ s)))"

definition fieldStr :: "(string \<times> built) list \<Rightarrow> exn + string" where
  "fieldStr flds = bind (traverse encodeField flds) (\<lambda>segments. Inr (join '','' segments))"

definition toLineProtocol ::
  "(string \<Rightarrow> string \<Rightarrow> int) \<Rightarrow> string \<Rightarrow> (string \<times> jsval) list \<Rightarrow> (string \<times> built) list \<Rightarrow> jsnum
     \<Rightarrow> exn + string option" where
  "toLineProtocol localeCompare m tgs flds ts =
     bind (tagStr localeCompare tgs) (\<lambda>tagString.
     bind (fieldStr flds) (\<lambda>fieldString.
       if fieldString = [] then Inr None
       else Inr (Some (m @ '','' @ tagString @ '' '' @ fieldString @ '' '' @ NumberToString ts))))"

subsection \<open>The WeatherLink Live node\<close>

text \<open>
  What a run of a function node does: it returns \<^verbatim>\<open>null\<close> after \<^verbatim>\<open>node.error\<close>
  or after \<^verbatim>\<open>node.warn\<close> with a message, or it returns the message with a new
  payload. An exception that leaves the node is the \<open>Inl\<close> of the result. Calls of
  \<^verbatim>\<open>node.status\<close> are not recorded.
\<close>

datatype outcome =
    Return_null_error string
  | Return_null_warn string
  | Return_msg jsval

text \<open>
  \<^verbatim>\<open>conditions.find(p)\<close>: the first element satisfying \<open>p\<close>, or \<^verbatim>\<open>undefined\<close>. The
  call throws when \<open>conditions\<close> is not an array (no callable \<^verbatim>\<open>find\<close>), and when
  \<open>p\<close> throws on an element reached.
\<close>

fun find_first :: "(jsval \<Rightarrow> exn + bool) \<Rightarrow> jsval list \<Rightarrow> exn + jsval" where
  "find_first p [] = Inr JUndefined"
| "find_first p (c # cs) = bind (p c) (\<lambda>b. if b then Inr c else find_first p cs)"

definition Array_find :: "jsval \<Rightarrow> (jsval \<Rightarrow> exn + bool) \<Rightarrow> exn + jsval" where
  "Array_find a p = (case a of JArr cs \<Rightarrow> find_first p cs | _ \<Rightarrow> Inl TypeError)"

text \<open>
  The three selectors: \<^verbatim>\<open>c.data_structure_type === 1 && c.txid === 1\<close> for the
  outdoor block and \<^verbatim>\<open>c.data_structure_type === n\<close> for the others.
\<close>

definition is_outdoor :: "jsval \<Rightarrow> exn + bool" where
  "is_outdoor c =
     bind (get c ''data_structure_type'') (\<lambda>t.
       if t = JNum (Fin 1) then bind (get c ''txid'') (\<lambda>x. Inr (x = JNum (Fin 1)))
       else Inr False)"

definition has_structure_type :: "rat \<Rightarrow> jsval \<Rightarrow> exn + bool" where
  "has_structure_type n c = bind (get c ''data_structure_type'') (\<lambda>t. Inr (t = JNum (Fin n)))"

text \<open>
  One category block: build the fields, generate the line, and push it when it is
  truthy. The result is the list of lines pushed (none or one).
\<close>

definition push_line ::
  "(string \<Rightarrow> string \<Rightarrow> int) \<Rightarrow> string \<Rightarrow> (string \<times> jsval) list \<Rightarrow> jsval
     \<Rightarrow> (string \<times> fieldspec) list \<Rightarrow> jsnum \<Rightarrow> exn + string list" where
  "push_line localeCompare m tgs block schema timestamp =
     bind (buildFields block schema) (\<lambda>flds.
     bind (toLineProtocol localeCompare m tgs flds timestamp) (\<lambda>line.
       Inr (case line of
              Some l \<Rightarrow> if l \<noteq> [] then [l] else []
            | None \<Rightarrow> [])))"

text \<open>\<^verbatim>\<open>{ ...base, sensor_id: data.did || 'unknown' }\<close>\<close>

definition with_sensor_id :: "(string \<times> jsval) list \<Rightarrow> jsval \<Rightarrow> (string \<times> jsval) list" where
  "with_sensor_id base did = AList.update ''sensor_id'' (js_or did (JStr ''unknown'')) base"

definition weather_lines :: "(string \<Rightarrow> string \<Rightarrow> int) \<Rightarrow> jsval \<Rightarrow> exn + string list" where
  "weather_lines localeCompare data =
     bind (get data ''ts'') (\<lambda>ts.
     bind (ToNumber ts) (\<lambda>seconds.
     let timestamp = js_mul seconds (Fin 1000000000) in
     bind (get data ''conditions'') (\<lambda>conditions.
     bind (Array_find conditions is_outdoor) (\<lambda>outdoorBlock.
     bind (Array_find conditions (has_structure_type 4)) (\<lambda>indoorBlock.
     bind (Array_find conditions (has_structure_type 3)) (\<lambda>barBlock.
     bind (if truthy outdoorBlock
           then bind (get data ''did'') (\<lambda>did.
                  push_line localeCompare (measurement (outdoor CONFIG))
                    (with_sensor_id (tags (outdoor CONFIG)) did) outdoorBlock OUTDOOR_SCHEMA timestamp)
           else Inr []) (\<lambda>l1.
     bind (if truthy indoorBlock
           then push_line localeCompare (measurement (indoor CONFIG)) (tags (indoor CONFIG))
                  indoorBlock INDOOR_SCHEMA timestamp
           else Inr []) (\<lambda>l2.
     bind (if truthy barBlock
           then push_line localeCompare (measurement (barometer CONFIG)) (tags (barometer CONFIG))
                  barBlock BAROMETER_SCHEMA timestamp
           else Inr []) (\<lambda>l3.
     Inr (l1 @ l2 @ l3))))))))))"

definition weather_convert :: "(string \<Rightarrow> string \<Rightarrow> int) \<Rightarrow> jsval \<Rightarrow> exn + outcome" where
  "weather_convert localeCompare payload =
     (if \<not> truthy (opt_get (opt_get payload ''data'') ''ts'')
         \<or> \<not> truthy (opt_get (opt_get payload ''data'') ''conditions'')
      then Inr (Return_null_warn ''Invalid payload structure'')
      else
        bind (get payload ''data'') (\<lambda>data.
        bind (weather_lines localeCompare data) (\<lambda>lines.
          if length lines = 0 then Inr (Return_null_warn ''No valid data points'')
          else Inr (Return_msg (JStr (join [CHR 0x0A] lines))))))"

text \<open>
  The node from its input: a string payload is parsed first, and a parse failure is
  reported with \<^verbatim>\<open>node.error\<close>. \<^verbatim>\<open>JSON.parse\<close> is a parameter, giving the parsed
  value or the message of the exception.
\<close>

definition weather_node ::
  "(string \<Rightarrow> string + jsval) \<Rightarrow> (string \<Rightarrow> string \<Rightarrow> int) \<Rightarrow> jsval \<Rightarrow> exn + outcome" where
  "weather_node JSON_parse localeCompare payload =
     (case payload of
        JStr text \<Rightarrow>
          (case JSON_parse text of
             Inl message \<Rightarrow> Inr (Return_null_error (''JSON parsing error: '' @ message))
           | Inr parsed \<Rightarrow> weather_convert localeCompare parsed)
      | _ \<Rightarrow> weather_convert localeCompare payload)"

subsection \<open>The AirLink node\<close>

text \<open>\<^verbatim>\<open>v[0]\<close> without optional chaining.\<close>

definition get_index0 :: "jsval \<Rightarrow> exn + jsval" where
  "get_index0 v = (if nullish v then Inl TypeError else Inr (opt_index0 v))"

definition airlink_convert :: "(string \<Rightarrow> string \<Rightarrow> int) \<Rightarrow> jsval \<Rightarrow> exn + outcome" where
  "airlink_convert localeCompare payload =
     (if \<not> truthy (opt_get (opt_get payload ''data'') ''ts'')
         \<or> \<not> truthy (opt_index0 (opt_get (opt_get payload ''data'') ''conditions''))
      then Inr (Return_null_warn ''Invalid AirLink JSON structure - skipped'')
      else
        bind (get payload ''data'') (\<lambda>data.
        bind (get data ''conditions'') (\<lambda>conditions.
        bind (get_index0 conditions) (\<lambda>air.
        bind (get air ''data_structure_type'') (\<lambda>t.
          if t \<noteq> JNum (Fin 6)
          then Inr (Return_null_warn ''Invalid AirLink JSON structure - skipped'')
          else
            bind (get data ''ts'') (\<lambda>ts.
            bind (ToNumber ts) (\<lambda>seconds.
            let timestamp = js_mul seconds (Fin 1000000000) in
            bind (get data ''did'') (\<lambda>did.
            let tgs = with_sensor_id (tags AIRLINK_CONFIG) did in
            bind (buildFields air FIELD_SCHEMA) (\<lambda>flds.
              if length (map fst flds) = 0
              then Inr (Return_null_warn ''No valid data to write'')
              else
                bind (toLineProtocol localeCompare (measurement AIRLINK_CONFIG) tgs flds timestamp)
                  (\<lambda>line. Inr (Return_msg (case line of Some l \<Rightarrow> JStr l | None \<Rightarrow> JNull))))))))))))"

definition airlink_node ::
  "(string \<Rightarrow> string + jsval) \<Rightarrow> (string \<Rightarrow> string \<Rightarrow> int) \<Rightarrow> jsval \<Rightarrow> exn + outcome" where
  "airlink_node JSON_parse localeCompare payload =
     (case payload of
        JStr text \<Rightarrow>
          (case JSON_parse text of
             Inl message \<Rightarrow> Inr (Return_null_error (''JSON parsing error: '' @ message))
           | Inr parsed \<Rightarrow> airlink_convert localeCompare parsed)
      | _ \<Rightarrow> airlink_convert localeCompare payload)"

subsection \<open>Two comparison functions\<close>

text \<open>
  Two concrete orders on tag keys, to run the encoder on examples. \<open>bytewise\<close> compares
  the character codes lexicographically. \<open>collation\<close> follows the root collation of the
  Unicode Collation Algorithm, which \<^verbatim>\<open>localeCompare\<close> applies in Node.js, on strings
  of ASCII letters, digits and underscores: at the first level the underscore precedes
  the digits and the digits precede the letters, letters compared without regard to
  case; strings equal at the first level are ordered by case, lower case first. Other
  characters are placed by code before the digits.
\<close>

definition compare_keys :: "('a \<Rightarrow> 'k::linorder) \<Rightarrow> 'a \<Rightarrow> 'a \<Rightarrow> int" where
  "compare_keys key a b = (if key a < key b then - 1 else if key b < key a then 1 else 0)"

definition bytewise :: "string \<Rightarrow> string \<Rightarrow> int" where
  "bytewise = compare_keys (map (of_char :: char \<Rightarrow> nat))"

fun index_in :: "char \<Rightarrow> string \<Rightarrow> nat option" where
  "index_in c [] = None"
| "index_in c (x # xs) = (if c = x then Some 0 else map_option Suc (index_in c xs))"

definition primary_weight :: "char \<Rightarrow> nat" where
  "primary_weight c =
     (case index_in c ''abcdefghijklmnopqrstuvwxyz'' of Some i \<Rightarrow> 300 + i | None \<Rightarrow>
      case index_in c ''ABCDEFGHIJKLMNOPQRSTUVWXYZ'' of Some i \<Rightarrow> 300 + i | None \<Rightarrow>
      case index_in c ''0123456789'' of Some i \<Rightarrow> 280 + i | None \<Rightarrow>
      if c = CHR ''_'' then 0 else 1 + of_char c)"

definition case_weight :: "char \<Rightarrow> nat" where
  "case_weight c = (case index_in c ''ABCDEFGHIJKLMNOPQRSTUVWXYZ'' of Some i \<Rightarrow> 1 | None \<Rightarrow> 0)"

definition collation :: "string \<Rightarrow> string \<Rightarrow> int" where
  "collation = compare_keys (\<lambda>s. (map primary_weight s, map case_weight s))"

subsection \<open>Truncation as the specification words it\<close>

text \<open>
  The specification speaks of an Integer field's value \<^emph>\<open>truncated toward zero\<close>. This
  is that operation on a finite value, to compare with \<open>Math_floor\<close>, which the code calls.
\<close>

definition truncated_toward_zero :: "rat \<Rightarrow> int" where
  "truncated_toward_zero q = (if q < 0 then - \<lfloor>- q\<rfloor> else \<lfloor>q\<rfloor>)"

subsection \<open>The fields a schema retains\<close>

text \<open>
  For an object with entries \<open>src\<close>: whether the loop of \<open>buildFields\<close> records a schema
  entry, and the field it records. They state the result of the loop in one piece.
\<close>

definition retained :: "(string \<times> jsval) list \<Rightarrow> string \<times> fieldspec \<Rightarrow> bool" where
  "retained src = (\<lambda>(n, c).
     \<not> nullish (lookup src (sourceKey n c))
     \<and> (\<exists>v'. converted c (lookup src (sourceKey n c)) = Inr v' \<and> \<not> nullish v' \<and> v' \<noteq> JNum NaN))"

definition recorded :: "(string \<times> jsval) list \<Rightarrow> string \<times> fieldspec \<Rightarrow> string \<times> built" where
  "recorded src = (\<lambda>(n, c).
     (n, \<lparr>value = (case converted c (lookup src (sourceKey n c)) of Inr v \<Rightarrow> v | Inl _ \<Rightarrow> JUndefined),
          ftype = type c\<rparr>))"

subsection \<open>Sample readings\<close>

text \<open>
  A WeatherLink Live reading with an outdoor block and an indoor block that has no value;
  the same outdoor block under the timestamp 0; a reading whose only block has no value;
  a reading with a block of transmitter 2 before a block of transmitter 1 that has no
  value; a reading whose only entry is \<^verbatim>\<open>null\<close>; a reading with an indoor block only;
  a reading whose device id is an object with an entry \<^verbatim>\<open>toString\<close>; and two
  AirLink readings, one with an empty device id and one with no value. The last is a
  schema with a source key, to run the extractor on.
\<close>

definition outdoor_block :: jsval where
  "outdoor_block = JObj [(''data_structure_type'', JNum (Fin 1)), (''txid'', JNum (Fin 1)),
                         (''temp'', JNum (Fin 32)), (''hum'', JNum (Fin 50))]"

definition indoor_block :: jsval where
  "indoor_block = JObj [(''data_structure_type'', JNum (Fin 4)), (''temp_in'', JNum (Fin 32))]"

definition indoor_block_no_value :: jsval where
  "indoor_block_no_value = JObj [(''data_structure_type'', JNum (Fin 4)), (''temp_in'', JNull)]"

definition outdoor_block_no_value :: jsval where
  "outdoor_block_no_value = JObj [(''data_structure_type'', JNum (Fin 1)), (''txid'', JNum (Fin 1)),
                                  (''temp'', JNull)]"

definition outdoor_block_transmitter_2 :: jsval where
  "outdoor_block_transmitter_2 =
     JObj [(''data_structure_type'', JNum (Fin 1)), (''txid'', JNum (Fin 2)),
           (''temp'', JNum (Fin 32))]"

definition weather_data :: "(string \<times> jsval) list" where
  "weather_data = [(''ts'', JNum (Fin 1700000000)), (''did'', JStr ''ABC''),
                   (''conditions'', JArr [outdoor_block, indoor_block_no_value])]"

definition weather_data_epoch :: "(string \<times> jsval) list" where
  "weather_data_epoch = [(''ts'', JNum (Fin 0)), (''did'', JStr ''ABC''),
                         (''conditions'', JArr [outdoor_block])]"

definition weather_data_no_value :: "(string \<times> jsval) list" where
  "weather_data_no_value = [(''ts'', JNum (Fin 1700000000)),
                            (''conditions'', JArr [outdoor_block_no_value])]"

definition weather_data_transmitter_2 :: "(string \<times> jsval) list" where
  "weather_data_transmitter_2 =
     [(''ts'', JNum (Fin 1700000000)),
      (''conditions'', JArr [outdoor_block_transmitter_2, outdoor_block_no_value])]"

definition weather_data_null_entry :: "(string \<times> jsval) list" where
  "weather_data_null_entry = [(''ts'', JNum (Fin 1700000000)), (''conditions'', JArr [JNull])]"

definition weather_data_indoor_only :: "(string \<times> jsval) list" where
  "weather_data_indoor_only = [(''ts'', JNum (Fin 1700000000)), (''conditions'', JArr [indoor_block])]"

definition weather_data_object_id :: "(string \<times> jsval) list" where
  "weather_data_object_id =
     [(''ts'', JNum (Fin 1700000000)), (''did'', JObj [(''toString'', JNum (Fin 0))]),
      (''conditions'', JArr [outdoor_block_no_value])]"

definition air_block :: "(string \<times> jsval) list" where
  "air_block = [(''data_structure_type'', JNum (Fin 6)), (''temp'', JNum (Fin 32)),
                (''pm_1_last'', JNum (Fin 7))]"

definition air_block_no_value :: "(string \<times> jsval) list" where
  "air_block_no_value = [(''data_structure_type'', JNum (Fin 6)), (''temp'', JNull)]"

definition airlink_data :: "(string \<times> jsval) list" where
  "airlink_data = [(''ts'', JNum (Fin 1700000000)), (''did'', JStr ''''),
                   (''conditions'', JArr [JObj air_block])]"

definition airlink_data_no_value :: "(string \<times> jsval) list" where
  "airlink_data_no_value = [(''ts'', JNum (Fin 1700000000)),
                            (''conditions'', JArr [JObj air_block_no_value])]"

definition gust_schema :: "(string \<times> fieldspec) list" where
  "gust_schema =
    [(''gust'', \<lparr>type = ''float'', source = Some ''wind_speed_hi_last_2_min'', convert = Some mphToMs\<rparr>),
     (''hum'', \<lparr>type = ''float'', source = Some [], convert = None\<rparr>),
     (''wind_dir_last'', \<lparr>type = ''int'', source = None, convert = None\<rparr>),
     (''constructor'', \<lparr>type = ''float'', source = None, convert = None\<rparr>)]"

section \<open>Sequencing and the converters\<close>

lemma bind_Inr [simp]: "bind (Inr x) f = f x"
  by (simp add: bind_def)

lemma bind_Inl [simp]: "bind (Inl e) f = Inl e"
  by (simp add: bind_def)

lemma bind_eq_Inr: "bind m f = Inr y \<longleftrightarrow> (\<exists>x. m = Inr x \<and> f x = Inr y)"
  by (cases m) simp_all

lemma sequence_map_Inr [simp]: "sequence (map Inr xs) = Inr xs"
  by (induction xs) simp_all

lemma sequence_eq_Inr: "sequence ms = Inr xs \<longleftrightarrow> ms = map Inr xs"
proof (induction ms arbitrary: xs)
  case Nil
  then show ?case by auto
next
  case (Cons m ms)
  show ?case
  proof (cases m)
    case (Inl e)
    then show ?thesis by auto
  next
    case (Inr x)
    show ?thesis
    proof (cases "sequence ms")
      case (Inl e)
      with Cons.IH have "\<And>ys. ms \<noteq> map Inr ys" by auto
      with Inl Inr show ?thesis by (cases xs) auto
    next
      case r: (Inr ys)
      with Cons.IH [of ys] have "ms = map Inr ys" by simp
      with r Inr show ?thesis by (cases xs) auto
    qed
  qed
qed

lemma sequence_raises:
  assumes "\<forall>m \<in> set ms. (\<exists>x. m = Inr x) \<or> m = Inl e" and "\<exists>m \<in> set ms. m = Inl e"
  shows "sequence ms = Inl e"
  using assms
proof (induction ms)
  case Nil
  then show ?case by simp
next
  case (Cons m ms)
  show ?case
  proof (cases m)
    case (Inl e')
    with Cons.prems(1) show ?thesis by simp
  next
    case (Inr x)
    with Cons.prems have "sequence ms = Inl e"
      by (intro Cons.IH) auto
    with Inr show ?thesis by simp
  qed
qed

text \<open>
  A conversion to a string or to a number returns exactly on the values that have a
  string, and throws a TypeError on the others.
\<close>

lemma ToString_convertible:
  "(convertible v \<longrightarrow> (\<exists>s. ToString v = Inr s)) \<and> (\<not> convertible v \<longrightarrow> ToString v = Inl TypeError)"
proof (induction v rule: ToString.induct)
  case (6 xs)
  let ?f = "\<lambda>x. if x = JNull \<or> x = JUndefined then Inr [] else ToString x"
  have each: "\<forall>x \<in> set xs. (convertible x \<longrightarrow> (\<exists>s. ?f x = Inr s))
      \<and> (\<not> convertible x \<longrightarrow> ?f x = Inl TypeError)"
    using 6 by auto
  show ?case
  proof (cases "\<forall>x \<in> set xs. convertible x")
    case True
    with each have "\<forall>x \<in> set xs. \<exists>s. ?f x = Inr s" by blast
    then have "\<exists>strs. map ?f xs = map Inr strs"
    proof (induction xs)
      case Nil
      then show ?case by simp
    next
      case (Cons a xs)
      then obtain s strs where "?f a = Inr s" "map ?f xs = map Inr strs"
        by auto
      then have "map ?f (a # xs) = map Inr (s # strs)" by simp
      then show ?case by blast
    qed
    then obtain strs where "map ?f xs = map Inr strs" by blast
    with True show ?thesis by simp
  next
    case False
    have "\<forall>m \<in> set (map ?f xs). (\<exists>s. m = Inr s) \<or> m = Inl TypeError"
      using each by auto
    moreover have "\<exists>m \<in> set (map ?f xs). m = Inl TypeError"
    proof -
      from False obtain x where x: "x \<in> set xs" "\<not> convertible x" by blast
      with each have e: "?f x = Inl TypeError" by blast
      from x(1) have "?f x \<in> set (map ?f xs)" by (rule imageI [of x "set xs" ?f, folded set_map])
      with e show ?thesis by (intro bexI [of _ "?f x"])
    qed
    ultimately have "sequence (map ?f xs) = Inl TypeError"
      by (rule sequence_raises)
    with False show ?thesis by simp
  qed
qed (simp_all split: option.splits)

lemma ToString_returns_iff: "(\<exists>s. ToString v = Inr s) \<longleftrightarrow> convertible v"
  using ToString_convertible [of v] by auto

lemma ToNumber_convertible:
  "(convertible v \<longrightarrow> (\<exists>x. ToNumber v = Inr x)) \<and> (\<not> convertible v \<longrightarrow> ToNumber v = Inl TypeError)"
  using ToString_convertible [of v] by (cases v) (auto simp: ToNumber_def)

lemma ToNumber_returns_iff: "(\<exists>x. ToNumber v = Inr x) \<longleftrightarrow> convertible v"
  using ToNumber_convertible [of v] by auto

lemma Math_floor_convertible:
  "(convertible v \<longrightarrow> (\<exists>x. Math_floor v = Inr x)) \<and> (\<not> convertible v \<longrightarrow> Math_floor v = Inl TypeError)"
  using ToNumber_convertible [of v] by (auto simp: Math_floor_def)

text \<open>\<^verbatim>\<open>toFixed\<close> throws for a digit count above 100 only; the converters ask for 1, 2 or 3.\<close>

lemma toFixed_returns: "f \<le> 100 \<Longrightarrow> \<exists>s. toFixed x f = Inr s"
  by (cases x) (simp_all add: toFixed_def Let_def)

lemma rounded_returns: "f \<le> 100 \<Longrightarrow> \<exists>r. bind (toFixed x f) unary_plus = Inr r"
  using toFixed_returns [of f x] by (auto simp: unary_plus_def ToNumber_def)

lemma converter_convertible:
  assumes "f \<le> 100"
  shows "(convertible v \<longrightarrow>
            (\<exists>r. (if \<not> nullish v then bind (ToNumber v) (\<lambda>x. bind (toFixed (g x) f) unary_plus)
                   else Inr JNull) = Inr r))
       \<and> (\<not> convertible v \<longrightarrow>
            (if \<not> nullish v then bind (ToNumber v) (\<lambda>x. bind (toFixed (g x) f) unary_plus)
             else Inr JNull) = Inl TypeError)"
proof (cases "convertible v")
  case True
  then obtain x where "ToNumber v = Inr x"
    using ToNumber_convertible by blast
  with True rounded_returns [OF assms, of "g x"] show ?thesis by auto
next
  case False
  then have "ToNumber v = Inl TypeError" "\<not> nullish v"
    using ToNumber_convertible by (auto simp: nullish_def)
  with False show ?thesis by simp
qed

lemma fahrenheitToCelsius_convertible:
  "(convertible v \<longrightarrow> (\<exists>r. fahrenheitToCelsius v = Inr r))
   \<and> (\<not> convertible v \<longrightarrow> fahrenheitToCelsius v = Inl TypeError)"
  unfolding fahrenheitToCelsius_def by (rule converter_convertible) simp

lemma inHgToHPa_convertible:
  "(convertible v \<longrightarrow> (\<exists>r. inHgToHPa v = Inr r))
   \<and> (\<not> convertible v \<longrightarrow> inHgToHPa v = Inl TypeError)"
  unfolding inHgToHPa_def by (rule converter_convertible) simp

lemma inHgToHPaTrend_convertible:
  "(convertible v \<longrightarrow> (\<exists>r. inHgToHPaTrend v = Inr r))
   \<and> (\<not> convertible v \<longrightarrow> inHgToHPaTrend v = Inl TypeError)"
  unfolding inHgToHPaTrend_def by (rule converter_convertible) simp

lemma mphToMs_convertible:
  "(convertible v \<longrightarrow> (\<exists>r. mphToMs v = Inr r))
   \<and> (\<not> convertible v \<longrightarrow> mphToMs v = Inl TypeError)"
  unfolding mphToMs_def by (rule converter_convertible) simp

lemma tipsToMm_convertible:
  "(convertible v \<longrightarrow> (\<exists>r. tipsToMm v = Inr r))
   \<and> (\<not> convertible v \<longrightarrow> tipsToMm v = Inl TypeError)"
  unfolding tipsToMm_def by (rule converter_convertible) simp

lemmas converters_convertible =
  fahrenheitToCelsius_convertible inHgToHPa_convertible inHgToHPaTrend_convertible
  mphToMs_convertible tipsToMm_convertible

text \<open>
  Claim C6, as amended. Each of the five unit converters returns \<^verbatim>\<open>null\<close> for a
  \<^verbatim>\<open>null\<close> or \<^verbatim>\<open>undefined\<close> argument. It returns a value, without throwing, for
  every argument that has a number; that is every \<^verbatim>\<open>undefined\<close>, \<^verbatim>\<open>null\<close>,
  boolean, number and string, every object without an own entry \<^verbatim>\<open>toString\<close>, and
  every array of such values. On any other argument it throws a TypeError.
\<close>

theorem converters_null_propagation:
  "(nullish v \<longrightarrow>
      fahrenheitToCelsius v = Inr JNull \<and> inHgToHPa v = Inr JNull \<and> inHgToHPaTrend v = Inr JNull
      \<and> mphToMs v = Inr JNull \<and> tipsToMm v = Inr JNull)
   \<and> (convertible v \<longrightarrow>
        (\<exists>r. fahrenheitToCelsius v = Inr r) \<and> (\<exists>r. inHgToHPa v = Inr r)
        \<and> (\<exists>r. inHgToHPaTrend v = Inr r) \<and> (\<exists>r. mphToMs v = Inr r) \<and> (\<exists>r. tipsToMm v = Inr r))
   \<and> (\<not> convertible v \<longrightarrow>
        fahrenheitToCelsius v = Inl TypeError \<and> inHgToHPa v = Inl TypeError
        \<and> inHgToHPaTrend v = Inl TypeError \<and> mphToMs v = Inl TypeError
        \<and> tipsToMm v = Inl TypeError)
   \<and> convertible JUndefined \<and> convertible JNull \<and> convertible (JBool b) \<and> convertible (JNum x)
   \<and> convertible (JStr s)
   \<and> convertible (JObj kvs) = (map_of kvs ''toString'' = None)
   \<and> convertible (JArr xs) = (\<forall>a \<in> set xs. convertible a)"
proof (intro conjI)
  show "nullish v \<longrightarrow>
      fahrenheitToCelsius v = Inr JNull \<and> inHgToHPa v = Inr JNull \<and> inHgToHPaTrend v = Inr JNull
      \<and> mphToMs v = Inr JNull \<and> tipsToMm v = Inr JNull"
    by (simp add: fahrenheitToCelsius_def inHgToHPa_def inHgToHPaTrend_def mphToMs_def tipsToMm_def)
  show "convertible v \<longrightarrow>
        (\<exists>r. fahrenheitToCelsius v = Inr r) \<and> (\<exists>r. inHgToHPa v = Inr r)
        \<and> (\<exists>r. inHgToHPaTrend v = Inr r) \<and> (\<exists>r. mphToMs v = Inr r) \<and> (\<exists>r. tipsToMm v = Inr r)"
    using converters_convertible [of v] by blast
  show "\<not> convertible v \<longrightarrow>
        fahrenheitToCelsius v = Inl TypeError \<and> inHgToHPa v = Inl TypeError
        \<and> inHgToHPaTrend v = Inl TypeError \<and> mphToMs v = Inl TypeError
        \<and> tipsToMm v = Inl TypeError"
    using converters_convertible [of v] by blast
qed simp_all

text \<open>
  At \<^verbatim>\<open>null\<close> and \<^verbatim>\<open>undefined\<close>; at the string \<^verbatim>\<open>abc\<close>, which has a number; and
  at an array that holds an object with an entry \<^verbatim>\<open>toString\<close>, which has none.
\<close>

theorem converters_null_propagation_witness:
  "nullish JNull \<and> nullish JUndefined
   \<and> fahrenheitToCelsius JNull = Inr JNull \<and> inHgToHPa JUndefined = Inr JNull
   \<and> inHgToHPaTrend JNull = Inr JNull \<and> mphToMs JUndefined = Inr JNull \<and> tipsToMm JNull = Inr JNull
   \<and> convertible (JStr ''abc'') \<and> (\<exists>r. fahrenheitToCelsius (JStr ''abc'') = Inr r)
   \<and> \<not> convertible (JArr [JObj [(''toString'', JNull)]])
   \<and> mphToMs (JArr [JObj [(''toString'', JNull)]]) = Inl TypeError"
  using converters_null_propagation [of JNull] converters_null_propagation [of JUndefined]
    converters_null_propagation [of "JStr ''abc''"]
    converters_null_propagation [of "JArr [JObj [(''toString'', JNull)]]"]
  by (simp add: nullish_def)

text \<open>
  The claim as worded fails for a value without a number: on an object with an entry
  \<^verbatim>\<open>toString\<close> the subtraction \<^verbatim>\<open>f - 32\<close> throws a TypeError.
\<close>

theorem converter_raises_counterexample:
  "fahrenheitToCelsius (JObj [(''toString'', JNum (Fin 0))]) = Inl TypeError"
  by code_simp

text \<open>
  Claim C7. The converters at the inputs of the specification: 32 \<^verbatim>\<open>\<degree>F\<close> is 0,
  10 mph is 4.47 m/s, one tip of the default 0.2 mm cup is 0.2 mm, 29.92 inHg is
  1013.2 hPa to one decimal and 1013.208 hPa to three decimals for the trend. A decimal
  such as 4.47 stands for the Number nearest to it, \<open>fl (447 / 100)\<close>, which prints as
  \<^verbatim>\<open>4.47\<close>.
\<close>

theorem converter_values:
  "fahrenheitToCelsius (JNum (Fin 32)) = Inr (JNum (Fin 0))
   \<and> mphToMs (JNum (Fin 10)) = Inr (JNum (fl (447 / 100)))
   \<and> rainCupSizeMm CONFIG = fl (2 / 10)
   \<and> tipsToMm (JNum (Fin 1)) = Inr (JNum (fl (2 / 10)))
   \<and> inHgToHPa (JNum (fl (2992 / 100))) = Inr (JNum (fl (10132 / 10)))
   \<and> inHgToHPaTrend (JNum (fl (2992 / 100))) = Inr (JNum (fl (1013208 / 1000)))
   \<and> map NumberToString [Fin 0, fl (447 / 100), fl (2 / 10), fl (10132 / 10), fl (1013208 / 1000)]
       = [''0'', ''4.47'', ''0.2'', ''1013.2'', ''1013.208'']"
proof (intro conjI)
  show "fahrenheitToCelsius (JNum (Fin 32)) = Inr (JNum (Fin 0))"
    by code_simp
  show "mphToMs (JNum (Fin 10)) = Inr (JNum (fl (447 / 100)))"
    by code_simp
  show "rainCupSizeMm CONFIG = fl (2 / 10)"
    by (simp add: CONFIG_def)
  show "tipsToMm (JNum (Fin 1)) = Inr (JNum (fl (2 / 10)))"
    by code_simp
  show "inHgToHPa (JNum (fl (2992 / 100))) = Inr (JNum (fl (10132 / 10)))"
    by code_simp
  show "inHgToHPaTrend (JNum (fl (2992 / 100))) = Inr (JNum (fl (1013208 / 1000)))"
    by code_simp
  show "map NumberToString [Fin 0, fl (447 / 100), fl (2 / 10), fl (10132 / 10), fl (1013208 / 1000)]
       = [''0'', ''4.47'', ''0.2'', ''1013.2'', ''1013.208'']"
    by code_simp
qed

section \<open>The encoded line\<close>

lemma join_Nil_iff: "sep \<noteq> [] \<Longrightarrow> join sep xs = [] \<longleftrightarrow> xs = [] \<or> xs = [[]]"
  by (induction sep xs rule: join.induct) auto

lemma join_lines_nonempty:
  assumes "lines \<noteq> []" and "\<forall>l \<in> set lines. l \<noteq> []"
  shows "join sep lines \<noteq> []"
  using assms by (induction sep lines rule: join.induct) auto

lemma traverse_Nil [simp]: "traverse f [] = Inr []"
  by (simp add: traverse_def)

lemma traverse_eq_Inr: "traverse f xs = Inr ys \<longleftrightarrow> map f xs = map Inr ys"
  by (simp add: traverse_def sequence_eq_Inr)

lemma traverse_segments:
  assumes "traverse f xs = Inr segments" and "\<And>x s. f x = Inr s \<Longrightarrow> s \<noteq> []"
  shows "join '','' segments = [] \<longleftrightarrow> xs = []"
proof -
  from assms(1) have m: "map f xs = map Inr segments"
    by (simp add: traverse_eq_Inr)
  then have l: "length segments = length xs"
    by (metis length_map)
  have "segments \<noteq> [[]]"
  proof
    assume "segments = [[]]"
    with m obtain x where "f x = Inr []"
      by (cases xs) auto
    with assms(2) show False by blast
  qed
  then have "join '','' segments = [] \<longleftrightarrow> segments = []"
    by (simp add: join_Nil_iff)
  with l show ?thesis by auto
qed

lemma encodeField_nonempty: "encodeField p = Inr s \<Longrightarrow> s \<noteq> []"
  by (cases p) (auto simp: encodeField_def bind_eq_Inr split: if_splits)

lemma fieldStr_Nil_iff: "fieldStr flds = Inr [] \<longleftrightarrow> flds = []"
proof
  assume "fieldStr flds = Inr []"
  then obtain segments where "traverse encodeField flds = Inr segments" "join '','' segments = []"
    by (auto simp: fieldStr_def bind_eq_Inr)
  with traverse_segments [of encodeField flds segments] encodeField_nonempty show "flds = []"
    by blast
next
  assume "flds = []"
  then show "fieldStr flds = Inr []"
    by (simp add: fieldStr_def)
qed

text \<open>
  The encoder returns \<^verbatim>\<open>null\<close> exactly when there is no field and the tag string
  was built; a line it returns is not empty and encodes at least one field.
\<close>

lemma toLineProtocol_assembly:
  "toLineProtocol cmp m tgs flds ts =
     bind (tagStr cmp tgs) (\<lambda>tagString.
     bind (fieldStr flds) (\<lambda>fieldString.
       Inr (if flds = [] then None
            else Some (m @ '','' @ tagString @ '' '' @ fieldString @ '' '' @ NumberToString ts))))"
proof (cases "tagStr cmp tgs")
  case (Inl e)
  then show ?thesis by (simp add: toLineProtocol_def)
next
  case t: (Inr tagString)
  show ?thesis
  proof (cases "fieldStr flds")
    case (Inl e)
    with t show ?thesis by (simp add: toLineProtocol_def)
  next
    case (Inr fieldString)
    with fieldStr_Nil_iff [of flds] have "fieldString = [] \<longleftrightarrow> flds = []" by auto
    with t Inr show ?thesis by (simp add: toLineProtocol_def)
  qed
qed

lemma toLineProtocol_None_iff:
  "toLineProtocol cmp m tgs flds ts = Inr None \<longleftrightarrow> flds = [] \<and> (\<exists>t. tagStr cmp tgs = Inr t)"
  unfolding toLineProtocol_assembly
  by (cases "tagStr cmp tgs"; cases "fieldStr flds") (auto simp: fieldStr_def)

lemma toLineProtocol_nonempty: "toLineProtocol cmp m tgs flds ts \<noteq> Inr (Some [])"
  by (auto simp: toLineProtocol_def bind_eq_Inr split: if_splits)

lemma toLineProtocol_Some: "toLineProtocol cmp m tgs flds ts = Inr (Some l) \<Longrightarrow> flds \<noteq> []"
  unfolding toLineProtocol_assembly by (auto simp: bind_eq_Inr split: if_splits)

text \<open>
  Claim C3, as amended. A field of type \<^verbatim>\<open>'int'\<close> is written as its name, \<^verbatim>\<open>=\<close>,
  the string of \<^verbatim>\<open>Math.floor\<close> of its value and the suffix \<^verbatim>\<open>i\<close>: the value is
  rounded toward minus infinity, which is truncation toward zero for a value that is not
  negative, so that 180 and 180.9 both give \<^verbatim>\<open>180i\<close>. A field of any other type is
  written as its name, \<^verbatim>\<open>=\<close> and the string of its value, with no suffix and no
  further rounding. Either conversion returns for a value that has a string, as every
  number has, and throws a TypeError for a value that has none.
\<close>

theorem integer_field_encoding:
  "encodeField (k, \<lparr>value = v, ftype = ''int''\<rparr>)
     = bind (Math_floor v) (\<lambda>n. Inr (k @ ''='' @ NumberToString n @ ''i''))
   \<and> Math_floor (JNum (Fin q)) = Inr (Fin (of_int \<lfloor>q\<rfloor>))
   \<and> (0 \<le> q \<longrightarrow> \<lfloor>q\<rfloor> = truncated_toward_zero q)
   \<and> (t \<noteq> ''int'' \<longrightarrow>
        encodeField (k, \<lparr>value = v, ftype = t\<rparr>) = bind (ToString v) (\<lambda>s. Inr (k @ ''='' @ s)))
   \<and> ToString (JNum x) = Inr (NumberToString x)
   \<and> (convertible v \<longrightarrow> (\<exists>n. Math_floor v = Inr n) \<and> (\<exists>s. ToString v = Inr s))
   \<and> (\<not> convertible v \<longrightarrow> Math_floor v = Inl TypeError \<and> ToString v = Inl TypeError)
   \<and> encodeField (''wind_dir_last'', \<lparr>value = JNum (Fin 180), ftype = ''int''\<rparr>)
       = Inr ''wind_dir_last=180i''
   \<and> encodeField (''wind_dir_last'', \<lparr>value = JNum (fl (1809 / 10)), ftype = ''int''\<rparr>)
       = Inr ''wind_dir_last=180i''
   \<and> encodeField (''wind_speed_last'', \<lparr>value = JNum (fl (447 / 100)), ftype = ''float''\<rparr>)
       = Inr ''wind_speed_last=4.47''"
proof (intro conjI)
  show "encodeField (k, \<lparr>value = v, ftype = ''int''\<rparr>)
     = bind (Math_floor v) (\<lambda>n. Inr (k @ ''='' @ NumberToString n @ ''i''))"
    by (simp add: encodeField_def)
  show "Math_floor (JNum (Fin q)) = Inr (Fin (of_int \<lfloor>q\<rfloor>))"
    by (simp add: Math_floor_def ToNumber_def)
  show "0 \<le> q \<longrightarrow> \<lfloor>q\<rfloor> = truncated_toward_zero q"
    by (simp add: truncated_toward_zero_def)
  show "t \<noteq> ''int'' \<longrightarrow>
        encodeField (k, \<lparr>value = v, ftype = t\<rparr>) = bind (ToString v) (\<lambda>s. Inr (k @ ''='' @ s))"
    by (simp add: encodeField_def)
  show "ToString (JNum x) = Inr (NumberToString x)"
    by simp
  show "convertible v \<longrightarrow> (\<exists>n. Math_floor v = Inr n) \<and> (\<exists>s. ToString v = Inr s)"
    using Math_floor_convertible [of v] ToString_convertible [of v] by blast
  show "\<not> convertible v \<longrightarrow> Math_floor v = Inl TypeError \<and> ToString v = Inl TypeError"
    using Math_floor_convertible [of v] ToString_convertible [of v] by blast
  show "encodeField (''wind_dir_last'', \<lparr>value = JNum (Fin 180), ftype = ''int''\<rparr>)
       = Inr ''wind_dir_last=180i''"
    by code_simp
  show "encodeField (''wind_dir_last'', \<lparr>value = JNum (fl (1809 / 10)), ftype = ''int''\<rparr>)
       = Inr ''wind_dir_last=180i''"
    by code_simp
  show "encodeField (''wind_speed_last'', \<lparr>value = JNum (fl (447 / 100)), ftype = ''float''\<rparr>)
       = Inr ''wind_speed_last=4.47''"
    by code_simp
qed

theorem integer_field_encoding_witness:
  "(0::rat) \<le> 1809 / 10
   \<and> \<lfloor>1809 / 10 :: rat\<rfloor> = truncated_toward_zero (1809 / 10)
   \<and> ''float'' \<noteq> ''int''
   \<and> convertible (JStr ''0.3'')
   \<and> encodeField (''uv_index'', \<lparr>value = JStr ''0.3'', ftype = ''float''\<rparr>) = Inr (''uv_index='' @ ''0.3'')
   \<and> \<not> convertible (JObj [(''toString'', JNull)])
   \<and> Math_floor (JObj [(''toString'', JNull)]) = Inl TypeError"
  using integer_field_encoding [of "''uv_index''" "JStr ''0.3''" "1809 / 10" "''float''"]
    integer_field_encoding [of "''uv_index''" "JObj [(''toString'', JNull)]" "1809 / 10" "''float''"]
  by simp

text \<open>
  The claim as worded fails at a negative value: \<open>-1.5\<close> in an \<^verbatim>\<open>'int'\<close> field is
  written \<^verbatim>\<open>-2i\<close>, while truncation toward zero gives \<^verbatim>\<open>-1i\<close>.
\<close>

theorem integer_field_floor_counterexample:
  "encodeField (''wind_dir_last'', \<lparr>value = JNum (Fin (- 3 / 2)), ftype = ''int''\<rparr>)
     = Inr ''wind_dir_last=-2i''
   \<and> ''wind_dir_last='' @ NumberToString (Fin (of_int (truncated_toward_zero (- 3 / 2)))) @ ''i''
     = ''wind_dir_last=-1i''"
  by code_simp

section \<open>Tags: order and escaping\<close>

lemma length_insert_by: "length (insert_by cmp x xs) = Suc (length xs)"
  by (induction xs) auto

lemma length_sort_by: "length (sort_by cmp xs) = length xs"
  by (induction xs) (auto simp: sort_by_def length_insert_by)

lemma mset_insert_by: "mset (insert_by cmp x xs) = add_mset x (mset xs)"
  by (induction xs) auto

lemma mset_sort_by: "mset (sort_by cmp xs) = mset xs"
  by (induction xs) (auto simp: sort_by_def mset_insert_by)

lemma sorted_insert_by:
  assumes total: "\<And>a b. cmp a b \<le> 0 \<or> cmp b a \<le> 0"
    and trans: "\<And>a b c. cmp a b \<le> 0 \<Longrightarrow> cmp b c \<le> 0 \<Longrightarrow> cmp a c \<le> 0"
  shows "sorted_wrt (\<lambda>a b. cmp a b \<le> 0) xs \<Longrightarrow> sorted_wrt (\<lambda>a b. cmp a b \<le> 0) (insert_by cmp x xs)"
proof (induction xs)
  case Nil
  then show ?case by simp
next
  case (Cons y ys)
  show ?case
  proof (cases "cmp x y \<le> 0")
    case True
    with Cons.prems trans show ?thesis by auto
  next
    case False
    with total have yx: "cmp y x \<le> 0" by blast
    have "set (insert_by cmp x ys) = insert x (set ys)"
      by (induction ys) auto
    with False yx Cons show ?thesis by auto
  qed
qed

lemma sorted_sort_by:
  assumes total: "\<And>a b. cmp a b \<le> 0 \<or> cmp b a \<le> 0"
    and trans: "\<And>a b c. cmp a b \<le> 0 \<Longrightarrow> cmp b c \<le> 0 \<Longrightarrow> cmp a c \<le> 0"
  shows "sorted_wrt (\<lambda>a b. cmp a b \<le> 0) (sort_by cmp xs)"
proof (induction xs)
  case Nil
  then show ?case by (simp add: sort_by_def)
next
  case (Cons x xs)
  have "sort_by cmp (x # xs) = insert_by cmp x (sort_by cmp xs)"
    by (simp add: sort_by_def)
  with Cons sorted_insert_by [of cmp, OF total trans] show ?case by simp
qed

lemma sort_by_keys_sorted:
  assumes total: "\<And>a b. cmp a b \<le> 0 \<or> cmp b a \<le> 0"
    and trans: "\<And>a b c. cmp a b \<le> 0 \<Longrightarrow> cmp b c \<le> 0 \<Longrightarrow> cmp a c \<le> 0"
  shows "sorted_wrt (\<lambda>a b. cmp a b \<le> 0) (map fst (sort_by (\<lambda>(a, _) (b, _). cmp a b) xs))"
proof -
  let ?c = "\<lambda>(a, _) (b, _). cmp a b"
  have t: "\<And>p q. ?c p q \<le> 0 \<or> ?c q p \<le> 0"
    using total by (auto split: prod.splits)
  have tr: "\<And>p q r. ?c p q \<le> 0 \<Longrightarrow> ?c q r \<le> 0 \<Longrightarrow> ?c p r \<le> 0"
    using trans by (auto split: prod.splits)
  have "sorted_wrt (\<lambda>p q. ?c p q \<le> 0) (sort_by ?c xs)"
    by (rule sorted_sort_by [of ?c, OF t tr])
  then show ?thesis
    by (simp add: sorted_wrt_map case_prod_beta)
qed

lemma compare_keys_total: "compare_keys key a b \<le> 0 \<or> compare_keys key b a \<le> 0"
  by (simp add: compare_keys_def)

lemma compare_keys_trans:
  "compare_keys key a b \<le> 0 \<Longrightarrow> compare_keys key b c \<le> 0 \<Longrightarrow> compare_keys key a c \<le> 0"
  by (auto simp: compare_keys_def split: if_splits)

lemma collation_total: "\<forall>a b. collation a b \<le> 0 \<or> collation b a \<le> 0"
  by (simp add: collation_def compare_keys_total)

lemma collation_trans:
  "\<forall>a b c. collation a b \<le> 0 \<longrightarrow> collation b c \<le> 0 \<longrightarrow> collation a c \<le> 0"
  unfolding collation_def by (intro allI impI) (rule compare_keys_trans)

text \<open>The four replacements in sequence escape each character once.\<close>

lemma concat_map_concat_map:
  "concat (map f (concat (map g s))) = concat (map (\<lambda>x. concat (map f (g x))) s)"
  by (induction s) auto

lemma replace_all_concat_map:
  "replace_all c r (concat (map g s)) = concat (map (\<lambda>x. replace_all c r (g x)) s)"
  by (simp add: replace_all_def concat_map_concat_map)

lemma replace_all_as_map: "replace_all c r s = concat (map (\<lambda>x. replace_all c r [x]) s)"
  by (simp add: replace_all_def)

lemma escapeTagValue_chars:
  "escapeTagValue v =
     bind (ToString v) (\<lambda>s. Inr
       (concat (map (\<lambda>c. if c = backslash \<or> c = CHR '','' \<or> c = CHR ''='' \<or> c = CHR '' ''
                          then [backslash, c] else [c]) s)))"
proof -
  have "replace_all (CHR '' '') [backslash, CHR '' '']
          (replace_all (CHR ''='') [backslash, CHR ''='']
            (replace_all (CHR '','') [backslash, CHR '','']
              (replace_all backslash [backslash, backslash] s)))
      = concat (map (\<lambda>c. if c = backslash \<or> c = CHR '','' \<or> c = CHR ''='' \<or> c = CHR '' ''
                          then [backslash, c] else [c]) s)" for s
  proof -
    have "replace_all (CHR '' '') [backslash, CHR '' '']
          (replace_all (CHR ''='') [backslash, CHR ''='']
            (replace_all (CHR '','') [backslash, CHR '','']
              (replace_all backslash [backslash, backslash] s)))
      = concat (map (\<lambda>c. replace_all (CHR '' '') [backslash, CHR '' '']
          (replace_all (CHR ''='') [backslash, CHR ''='']
            (replace_all (CHR '','') [backslash, CHR '','']
              (replace_all backslash [backslash, backslash] [c])))) s)"
      by (subst replace_all_as_map [of backslash]) (simp only: replace_all_concat_map)
    also have "\<dots> = concat (map (\<lambda>c. if c = backslash \<or> c = CHR '','' \<or> c = CHR ''='' \<or> c = CHR '' ''
                          then [backslash, c] else [c]) s)"
      by (rule arg_cong [where f = concat], rule map_cong [OF refl])
         (simp add: replace_all_def backslash_def)
    finally show ?thesis .
  qed
  then show ?thesis
    by (simp add: escapeTagValue_def)
qed

lemma encodeTag_chars:
  "encodeTag = (\<lambda>(k, v). bind (ToString v) (\<lambda>s. Inr (k @ ''='' @
     concat (map (\<lambda>c. if c = backslash \<or> c = CHR '','' \<or> c = CHR ''='' \<or> c = CHR '' ''
                        then [backslash, c] else [c]) s))))"
proof (rule ext)
  fix p :: "string \<times> jsval"
  obtain k v where p: "p = (k, v)" by (cases p)
  show "encodeTag p = (case p of (k, v) \<Rightarrow> bind (ToString v) (\<lambda>s. Inr (k @ ''='' @
     concat (map (\<lambda>c. if c = backslash \<or> c = CHR '','' \<or> c = CHR ''='' \<or> c = CHR '' ''
                        then [backslash, c] else [c]) s))))"
    unfolding p by (cases "ToString v") (simp_all add: encodeTag_def escapeTagValue_chars)
qed

lemma encodeTag_nonempty: "encodeTag p = Inr s \<Longrightarrow> s \<noteq> []"
  by (cases p) (auto simp: encodeTag_def bind_eq_Inr)

lemma encodeTag_convertible:
  "(convertible v \<longrightarrow> (\<exists>s. encodeTag (k, v) = Inr s))
   \<and> (\<not> convertible v \<longrightarrow> encodeTag (k, v) = Inl TypeError)"
  using ToString_convertible [of v] by (auto simp: encodeTag_def escapeTagValue_def)

lemma kept_Nil_iff:
  "sort_by (\<lambda>(a, _) (b, _). cmp a b) (filter (\<lambda>(_, v). \<not> nullish v) tgs) = []
     \<longleftrightarrow> (\<forall>(k, v) \<in> set tgs. nullish v)"
proof -
  have "sort_by (\<lambda>(a, _) (b, _). cmp a b) (filter (\<lambda>(_, v). \<not> nullish v) tgs) = []
      \<longleftrightarrow> filter (\<lambda>(_, v). \<not> nullish v) tgs = []"
    using length_sort_by [of "\<lambda>(a, _) (b, _). cmp a b" "filter (\<lambda>(_, v). \<not> nullish v) tgs"]
    by (metis length_0_conv)
  also have "\<dots> \<longleftrightarrow> (\<forall>(k, v) \<in> set tgs. nullish v)"
    by (auto simp: filter_empty_conv)
  finally show ?thesis .
qed

lemma tagStr_Nil_iff: "tagStr cmp tgs = Inr [] \<longleftrightarrow> (\<forall>(k, v) \<in> set tgs. nullish v)"
proof
  assume "tagStr cmp tgs = Inr []"
  then obtain segments where
    "traverse encodeTag (sort_by (\<lambda>(a, _) (b, _). cmp a b) (filter (\<lambda>(_, v). \<not> nullish v) tgs))
       = Inr segments"
    and "join '','' segments = []"
    by (auto simp: tagStr_def bind_eq_Inr)
  with traverse_segments [of encodeTag _ segments] encodeTag_nonempty
  have "sort_by (\<lambda>(a, _) (b, _). cmp a b) (filter (\<lambda>(_, v). \<not> nullish v) tgs) = []"
    by blast
  then show "\<forall>(k, v) \<in> set tgs. nullish v"
    by (simp only: kept_Nil_iff)
next
  assume "\<forall>(k, v) \<in> set tgs. nullish v"
  then have "sort_by (\<lambda>(a, _) (b, _). cmp a b) (filter (\<lambda>(_, v). \<not> nullish v) tgs) = []"
    by (simp only: kept_Nil_iff)
  then show "tagStr cmp tgs = Inr []"
    by (simp add: tagStr_def)
qed

text \<open>The tag string is built exactly when every tag value has a string.\<close>

lemma traverse_convertible:
  assumes "\<And>x. (ok x \<longrightarrow> (\<exists>s. f x = Inr s)) \<and> (\<not> ok x \<longrightarrow> f x = Inl TypeError)"
  shows "((\<forall>x \<in> set xs. ok x) \<longrightarrow> (\<exists>ys. traverse f xs = Inr ys))
       \<and> (\<not> (\<forall>x \<in> set xs. ok x) \<longrightarrow> traverse f xs = Inl TypeError)"
proof (cases "\<forall>x \<in> set xs. ok x")
  case True
  then have "\<exists>ys. map f xs = map Inr ys"
  proof (induction xs)
    case Nil
    then show ?case by simp
  next
    case (Cons a xs)
    then obtain s ys where "f a = Inr s" "map f xs = map Inr ys"
      using assms by (metis list.set_intros(1) list.set_intros(2))
    then have "map f (a # xs) = map Inr (s # ys)" by simp
    then show ?case by blast
  qed
  with True show ?thesis by (auto simp: traverse_eq_Inr)
next
  case False
  then obtain x where x: "x \<in> set xs" "\<not> ok x" by blast
  with assms have e: "f x = Inl TypeError" by blast
  from x(1) have "f x \<in> set (map f xs)" by (rule imageI [of x "set xs" f, folded set_map])
  with e have "\<exists>m \<in> set (map f xs). m = Inl TypeError"
    by (intro bexI [of _ "f x"])
  moreover have "\<forall>m \<in> set (map f xs). (\<exists>s. m = Inr s) \<or> m = Inl TypeError"
    using assms by auto
  ultimately have "sequence (map f xs) = Inl TypeError"
    by (intro sequence_raises)
  with False show ?thesis by (simp add: traverse_def)
qed

lemma tagStr_convertible:
  "((\<forall>(k, v) \<in> set tgs. convertible v) \<longrightarrow> (\<exists>t. tagStr cmp tgs = Inr t))
   \<and> (\<not> (\<forall>(k, v) \<in> set tgs. convertible v) \<longrightarrow> tagStr cmp tgs = Inl TypeError)"
proof -
  let ?kept = "sort_by (\<lambda>(a, _) (b, _). cmp a b) (filter (\<lambda>(_, v). \<not> nullish v) tgs)"
  have "set ?kept = set (filter (\<lambda>(_, v). \<not> nullish v) tgs)"
    using mset_sort_by [of "\<lambda>(a, _) (b, _). cmp a b" "filter (\<lambda>(_, v). \<not> nullish v) tgs"]
    by (rule mset_eq_setD)
  moreover have "nullish v \<Longrightarrow> convertible v" for v
    by (auto simp: nullish_def)
  ultimately have s: "(\<forall>p \<in> set ?kept. convertible (snd p)) \<longleftrightarrow> (\<forall>(k, v) \<in> set tgs. convertible v)"
    by auto
  have "(ok p \<longrightarrow> (\<exists>s. encodeTag p = Inr s)) \<and> (\<not> ok p \<longrightarrow> encodeTag p = Inl TypeError)"
    if "ok = (\<lambda>p. convertible (snd p))" for ok and p :: "string \<times> jsval"
    using encodeTag_convertible [of "snd p" "fst p"] that by simp
  from traverse_convertible [of "\<lambda>p. convertible (snd p)" encodeTag ?kept, OF this [OF refl]]
  show ?thesis
    unfolding s by (auto simp: tagStr_def)
qed

lemma fieldStr_convertible:
  "((\<forall>(k, b) \<in> set flds. convertible (value b)) \<longrightarrow> (\<exists>f. fieldStr flds = Inr f))
   \<and> (\<not> (\<forall>(k, b) \<in> set flds. convertible (value b)) \<longrightarrow> fieldStr flds = Inl TypeError)"
proof -
  have "(convertible (value (snd p)) \<longrightarrow> (\<exists>s. encodeField p = Inr s))
      \<and> (\<not> convertible (value (snd p)) \<longrightarrow> encodeField p = Inl TypeError)" for p
    using Math_floor_convertible [of "value (snd p)"] ToString_convertible [of "value (snd p)"]
    by (cases p) (auto simp: encodeField_def)
  from traverse_convertible [of "\<lambda>p. convertible (value (snd p))" encodeField flds, OF this]
  have "((\<forall>p \<in> set flds. convertible (value (snd p))) \<longrightarrow> (\<exists>ys. traverse encodeField flds = Inr ys))
      \<and> (\<not> (\<forall>p \<in> set flds. convertible (value (snd p))) \<longrightarrow> traverse encodeField flds = Inl TypeError)" .
  moreover have "(\<forall>p \<in> set flds. convertible (value (snd p))) \<longleftrightarrow> (\<forall>(k, b) \<in> set flds. convertible (value b))"
    by auto
  ultimately show ?thesis
    by (auto simp: fieldStr_def)
qed

text \<open>
  Claim C2, as amended. The encoder drops the tags whose value is \<^verbatim>\<open>null\<close> or
  \<^verbatim>\<open>undefined\<close>, orders the others by key with \<^verbatim>\<open>localeCompare\<close> (for any
  comparison function that is total and transitive the keys come out sorted by it, and
  the tags kept are those of the input), and writes each as the key, unescaped, \<^verbatim>\<open>=\<close>
  and the string of the value with a backslash before every backslash, comma, equals
  sign and space, each escaped once. The tag string is built exactly when every value
  has a string; otherwise the encoder throws a TypeError. On the tags of the
  specification's example the collation order and the byte-wise order agree and give
  \<^verbatim>\<open>friendly_name=Davis\ Outdoor\ ISS,location=outside,source=davis\<close>.
\<close>

theorem tag_encoding:
  assumes "\<forall>a b. localeCompare a b \<le> 0 \<or> localeCompare b a \<le> 0"
    and "\<forall>a b c. localeCompare a b \<le> 0 \<longrightarrow> localeCompare b c \<le> 0 \<longrightarrow> localeCompare a c \<le> 0"
  shows "(\<exists>kept.
      mset kept = mset (filter (\<lambda>(k, v). v \<noteq> JNull \<and> v \<noteq> JUndefined) tgs)
      \<and> sorted_wrt (\<lambda>a b. localeCompare a b \<le> 0) (map fst kept)
      \<and> tagStr localeCompare tgs =
          bind (traverse (\<lambda>(k, v). bind (ToString v) (\<lambda>s. Inr (k @ ''='' @
                  concat (map (\<lambda>c. if c = backslash \<or> c = CHR '','' \<or> c = CHR ''='' \<or> c = CHR '' ''
                                     then [backslash, c] else [c]) s)))) kept)
            (\<lambda>segments. Inr (join '','' segments)))
    \<and> ((\<exists>t. tagStr localeCompare tgs = Inr t) \<longleftrightarrow> (\<forall>(k, v) \<in> set tgs. convertible v))
    \<and> (\<not> (\<forall>(k, v) \<in> set tgs. convertible v) \<longrightarrow> tagStr localeCompare tgs = Inl TypeError)
    \<and> ToString (JStr s) = Inr s
    \<and> tagStr collation [(''location'', JStr ''outside''), (''friendly_name'', JStr ''Davis Outdoor ISS''),
                         (''source'', JStr ''davis'')]
        = Inr (''friendly_name=Davis'' @ [backslash] @ '' Outdoor'' @ [backslash]
               @ '' ISS,location=outside,source=davis'')
    \<and> tagStr bytewise [(''location'', JStr ''outside''), (''friendly_name'', JStr ''Davis Outdoor ISS''),
                        (''source'', JStr ''davis'')]
        = Inr (''friendly_name=Davis'' @ [backslash] @ '' Outdoor'' @ [backslash]
               @ '' ISS,location=outside,source=davis'')"
proof (intro conjI)
  let ?kept = "sort_by (\<lambda>(a, _) (b, _). localeCompare a b) (filter (\<lambda>(_, v). \<not> nullish v) tgs)"
  have f: "filter (\<lambda>(_, v). \<not> nullish v) tgs = filter (\<lambda>(k, v). v \<noteq> JNull \<and> v \<noteq> JUndefined) tgs"
    by (rule filter_cong) (auto simp: nullish_def)
  have "mset ?kept = mset (filter (\<lambda>(k, v). v \<noteq> JNull \<and> v \<noteq> JUndefined) tgs)"
    by (simp add: mset_sort_by f)
  moreover have "sorted_wrt (\<lambda>a b. localeCompare a b \<le> 0) (map fst ?kept)"
    using assms by (intro sort_by_keys_sorted) blast+
  moreover have "tagStr localeCompare tgs =
          bind (traverse (\<lambda>(k, v). bind (ToString v) (\<lambda>s. Inr (k @ ''='' @
                  concat (map (\<lambda>c. if c = backslash \<or> c = CHR '','' \<or> c = CHR ''='' \<or> c = CHR '' ''
                                     then [backslash, c] else [c]) s)))) ?kept)
            (\<lambda>segments. Inr (join '','' segments))"
    unfolding tagStr_def by (subst encodeTag_chars) (rule refl)
  ultimately show "\<exists>kept.
      mset kept = mset (filter (\<lambda>(k, v). v \<noteq> JNull \<and> v \<noteq> JUndefined) tgs)
      \<and> sorted_wrt (\<lambda>a b. localeCompare a b \<le> 0) (map fst kept)
      \<and> tagStr localeCompare tgs =
          bind (traverse (\<lambda>(k, v). bind (ToString v) (\<lambda>s. Inr (k @ ''='' @
                  concat (map (\<lambda>c. if c = backslash \<or> c = CHR '','' \<or> c = CHR ''='' \<or> c = CHR '' ''
                                     then [backslash, c] else [c]) s)))) kept)
            (\<lambda>segments. Inr (join '','' segments))"
    by blast
next
  show "(\<exists>t. tagStr localeCompare tgs = Inr t) \<longleftrightarrow> (\<forall>(k, v) \<in> set tgs. convertible v)"
    using tagStr_convertible [of tgs localeCompare] by auto
next
  show "\<not> (\<forall>(k, v) \<in> set tgs. convertible v) \<longrightarrow> tagStr localeCompare tgs = Inl TypeError"
    using tagStr_convertible [of tgs localeCompare] by blast
next
  show "ToString (JStr s) = Inr s"
    by simp
next
  show "tagStr collation [(''location'', JStr ''outside''), (''friendly_name'', JStr ''Davis Outdoor ISS''),
                         (''source'', JStr ''davis'')]
        = Inr (''friendly_name=Davis'' @ [backslash] @ '' Outdoor'' @ [backslash]
               @ '' ISS,location=outside,source=davis'')"
    by code_simp
next
  show "tagStr bytewise [(''location'', JStr ''outside''), (''friendly_name'', JStr ''Davis Outdoor ISS''),
                        (''source'', JStr ''davis'')]
        = Inr (''friendly_name=Davis'' @ [backslash] @ '' Outdoor'' @ [backslash]
               @ '' ISS,location=outside,source=davis'')"
    by code_simp
qed

text \<open>
  With the collation, on a tag set with a \<^verbatim>\<open>null\<close> value and a value to escape,
  and on a tag whose value has no string.
\<close>

theorem tag_encoding_witness:
  "(\<forall>a b. collation a b \<le> 0 \<or> collation b a \<le> 0)
   \<and> (\<exists>kept.
         mset kept = mset (filter (\<lambda>(k, v). v \<noteq> JNull \<and> v \<noteq> JUndefined)
                       [(''source'', JStr ''davis''), (''location'', JNull), (''sensor_id'', JStr ''a=b'')])
         \<and> sorted_wrt (\<lambda>a b. collation a b \<le> 0) (map fst kept)
         \<and> tagStr collation [(''source'', JStr ''davis''), (''location'', JNull), (''sensor_id'', JStr ''a=b'')] =
             bind (traverse (\<lambda>(k, v). bind (ToString v) (\<lambda>s. Inr (k @ ''='' @
                     concat (map (\<lambda>c. if c = backslash \<or> c = CHR '','' \<or> c = CHR ''='' \<or> c = CHR '' ''
                                        then [backslash, c] else [c]) s)))) kept)
               (\<lambda>segments. Inr (join '','' segments)))
   \<and> tagStr collation [(''source'', JStr ''davis''), (''location'', JNull), (''sensor_id'', JStr ''a=b'')]
       = Inr (''sensor_id=a'' @ [backslash] @ ''=b,source=davis'')
   \<and> \<not> convertible (JObj [(''toString'', JNull)])
   \<and> tagStr collation [(''sensor_id'', JObj [(''toString'', JNull)])] = Inl TypeError"
proof (intro conjI)
  show "\<forall>a b. collation a b \<le> 0 \<or> collation b a \<le> 0"
    by (rule collation_total)
  show "\<exists>kept.
         mset kept = mset (filter (\<lambda>(k, v). v \<noteq> JNull \<and> v \<noteq> JUndefined)
                       [(''source'', JStr ''davis''), (''location'', JNull), (''sensor_id'', JStr ''a=b'')])
         \<and> sorted_wrt (\<lambda>a b. collation a b \<le> 0) (map fst kept)
         \<and> tagStr collation [(''source'', JStr ''davis''), (''location'', JNull), (''sensor_id'', JStr ''a=b'')] =
             bind (traverse (\<lambda>(k, v). bind (ToString v) (\<lambda>s. Inr (k @ ''='' @
                     concat (map (\<lambda>c. if c = backslash \<or> c = CHR '','' \<or> c = CHR ''='' \<or> c = CHR '' ''
                                        then [backslash, c] else [c]) s)))) kept)
               (\<lambda>segments. Inr (join '','' segments))"
    by (rule conjunct1 [OF tag_encoding [OF collation_total collation_trans]])
  show "tagStr collation [(''source'', JStr ''davis''), (''location'', JNull), (''sensor_id'', JStr ''a=b'')]
       = Inr (''sensor_id=a'' @ [backslash] @ ''=b,source=davis'')"
    by code_simp
  show "\<not> convertible (JObj [(''toString'', JNull)])"
    by simp
  have "\<not> (\<forall>(k, v) \<in> set [(''sensor_id'', JObj [(''toString'', JNull)])]. convertible v)"
    by simp
  with conjunct1 [OF conjunct2 [OF conjunct2 [OF tag_encoding [OF collation_total collation_trans,
      of "[(''sensor_id'', JObj [(''toString'', JNull)])]"]]]]
  show "tagStr collation [(''sensor_id'', JObj [(''toString'', JNull)])] = Inl TypeError"
    by (rule mp)
qed

text \<open>
  The claim as worded fails where the collation and the byte order differ: under the
  collation the key \<^verbatim>\<open>area\<close> is written before \<^verbatim>\<open>Zone\<close>, and byte-wise \<^verbatim>\<open>Zone\<close>
  comes first.
\<close>

theorem tag_order_counterexample:
  "tagStr collation [(''Zone'', JStr ''a''), (''area'', JStr ''b'')] = Inr ''area=b,Zone=a''
   \<and> bytewise ''Zone'' ''area'' < 0
   \<and> tagStr bytewise [(''Zone'', JStr ''a''), (''area'', JStr ''b'')] = Inr ''Zone=a,area=b''"
  by code_simp

text \<open>
  Claim C5, as amended. With at least one field, the line is the measurement name, a
  comma, the tag string, a space, the field string, a space and the timestamp (the tag
  string and the field string are built first, in this order, and a TypeError thrown by
  either is thrown by the encoder). The comma is written also when the tag string is
  empty, which it is exactly when every tag value is \<^verbatim>\<open>null\<close> or \<^verbatim>\<open>undefined\<close>: the
  line then starts with the measurement name, a comma and a space.
\<close>

theorem final_assembly:
  "(flds \<noteq> [] \<longrightarrow>
      toLineProtocol cmp m tgs flds ts =
        bind (tagStr cmp tgs) (\<lambda>tagString.
        bind (fieldStr flds) (\<lambda>fieldString.
          Inr (Some (m @ '','' @ tagString @ '' '' @ fieldString @ '' '' @ NumberToString ts)))))
   \<and> (tagStr cmp tgs = Inr [] \<longleftrightarrow> (\<forall>(k, v) \<in> set tgs. v = JNull \<or> v = JUndefined))
   \<and> (flds \<noteq> [] \<longrightarrow> tagStr cmp tgs = Inr [] \<longrightarrow>
        toLineProtocol cmp m tgs flds ts =
          bind (fieldStr flds) (\<lambda>fieldString.
            Inr (Some (m @ '', '' @ fieldString @ '' '' @ NumberToString ts))))
   \<and> ((\<exists>f. fieldStr flds = Inr f) \<longleftrightarrow> (\<forall>(k, b) \<in> set flds. convertible (value b)))
   \<and> ((\<exists>t. tagStr cmp tgs = Inr t) \<longleftrightarrow> (\<forall>(k, v) \<in> set tgs. convertible v))"
proof (intro conjI impI)
  assume "flds \<noteq> []"
  then show "toLineProtocol cmp m tgs flds ts =
        bind (tagStr cmp tgs) (\<lambda>tagString.
        bind (fieldStr flds) (\<lambda>fieldString.
          Inr (Some (m @ '','' @ tagString @ '' '' @ fieldString @ '' '' @ NumberToString ts))))"
    by (simp add: toLineProtocol_assembly)
next
  show "tagStr cmp tgs = Inr [] \<longleftrightarrow> (\<forall>(k, v) \<in> set tgs. v = JNull \<or> v = JUndefined)"
    using tagStr_Nil_iff [of cmp tgs] by (auto simp: nullish_def)
next
  assume "flds \<noteq> []" and "tagStr cmp tgs = Inr []"
  then show "toLineProtocol cmp m tgs flds ts =
          bind (fieldStr flds) (\<lambda>fieldString.
            Inr (Some (m @ '', '' @ fieldString @ '' '' @ NumberToString ts)))"
    by (simp add: toLineProtocol_assembly)
next
  show "(\<exists>f. fieldStr flds = Inr f) \<longleftrightarrow> (\<forall>(k, b) \<in> set flds. convertible (value b))"
    using fieldStr_convertible [of flds] by auto
next
  show "(\<exists>t. tagStr cmp tgs = Inr t) \<longleftrightarrow> (\<forall>(k, v) \<in> set tgs. convertible v)"
    using tagStr_convertible [of tgs cmp] by auto
qed

theorem final_assembly_witness:
  "[(''bar_trend'', \<lparr>value = JNum (Fin 0), ftype = ''float''\<rparr>)] \<noteq> []
   \<and> tagStr collation [(''source'', JNull)] = Inr []
   \<and> fieldStr [(''bar_trend'', \<lparr>value = JNum (Fin 0), ftype = ''float''\<rparr>)] = Inr ''bar_trend=0''
   \<and> toLineProtocol collation ''barometer'' [(''source'', JNull)]
        [(''bar_trend'', \<lparr>value = JNum (Fin 0), ftype = ''float''\<rparr>)] (Fin 1)
      = Inr (Some (''barometer'' @ '', '' @ ''bar_trend=0'' @ '' '' @ NumberToString (Fin 1)))"
proof -
  have f: "fieldStr [(''bar_trend'', \<lparr>value = JNum (Fin 0), ftype = ''float''\<rparr>)] = Inr ''bar_trend=0''"
    by code_simp
  from final_assembly [of "[(''bar_trend'', \<lparr>value = JNum (Fin 0), ftype = ''float''\<rparr>)]" collation
      "''barometer''" "[(''source'', JNull)]" "Fin 1"] f
  show ?thesis
    by simp
qed

text \<open>
  The claim as worded fails for an empty tag set: the comma after the measurement name
  is still written.
\<close>

theorem empty_tags_comma_counterexample:
  "tagStr collation [] = Inr []
   \<and> toLineProtocol collation ''barometer'' []
        [(''bar_trend'', \<lparr>value = JNum (Fin 0), ftype = ''float''\<rparr>)] (Fin 1)
      = Inr (Some ''barometer, bar_trend=0 1'')"
  by code_simp

section \<open>The field extractor\<close>

lemma update_fresh: "k \<notin> fst ` set al \<Longrightarrow> AList.update k v al = al @ [(k, v)]"
  by (induction al) auto

lemma assign_fresh:
  "k \<noteq> ''__proto__'' \<Longrightarrow> k \<notin> fst ` set al \<Longrightarrow> assign al k v = al @ [(k, v)]"
  by (simp add: assign_def update_fresh)

lemma get_object [simp]: "get (JObj kvs) k = Inr (lookup kvs k)"
  by (simp add: get_def)

lemma opt_get_object [simp]: "opt_get (JObj kvs) k = lookup kvs k"
  by (simp add: opt_get_def)

text \<open>
  On an object, with schema keys that are distinct and not \<^verbatim>\<open>__proto__\<close>, and
  converters that return on the values read, the loop appends the recorded field of every
  retained entry, in schema order. When a converter throws on a value read, so does the
  loop.
\<close>

lemma buildFields_loop_object:
  assumes "distinct (map fst schema)"
    and "''__proto__'' \<notin> fst ` set schema"
    and "\<forall>(n, c) \<in> set schema. nullish (lookup src (sourceKey n c))
           \<or> (\<exists>r. converted c (lookup src (sourceKey n c)) = Inr r)"
    and "fst ` set acc \<inter> fst ` set schema = {}"
  shows "buildFields_loop (JObj src) schema acc = Inr (acc @ map (recorded src) (filter (retained src) schema))"
  using assms
proof (induction schema arbitrary: acc)
  case Nil
  then show ?case by simp
next
  case (Cons e schema)
  obtain n c where e: "e = (n, c)" by (cases e)
  let ?v = "lookup src (sourceKey n c)"
  have d: "distinct (map fst schema)" and p: "''__proto__'' \<notin> fst ` set schema"
    and t: "\<forall>(n, c) \<in> set schema. nullish (lookup src (sourceKey n c))
           \<or> (\<exists>r. converted c (lookup src (sourceKey n c)) = Inr r)"
    using Cons.prems by auto
  have fresh: "n \<notin> fst ` set acc" and nn: "n \<notin> fst ` set schema" and np: "n \<noteq> ''__proto__''"
    using Cons.prems e by auto
  have acc: "fst ` set acc \<inter> fst ` set schema = {}"
    using Cons.prems(4) by auto
  show ?case
  proof (cases "retained src e")
    case True
    with e obtain r where r: "converted c ?v = Inr r"
      and k: "\<not> nullish ?v" "\<not> nullish r" "r \<noteq> JNum NaN"
      by (auto simp: retained_def)
    have "fst ` set (assign acc n \<lparr>value = r, ftype = type c\<rparr>) \<inter> fst ` set schema = {}"
      using acc nn fresh np by (auto simp: assign_fresh)
    from Cons.IH [OF d p t this] True e r k fresh np show ?thesis
      by (simp add: Number_isNaN_def assign_fresh recorded_def)
  next
    case False
    show ?thesis
    proof (cases "nullish ?v")
      case True
      with Cons.IH [OF d p t acc] False e show ?thesis by simp
    next
      case nv: False
      with Cons.prems(3) e obtain r where r: "converted c ?v = Inr r" by auto
      with False e nv have "nullish r \<or> r = JNum NaN"
        by (auto simp: retained_def)
      with Cons.IH [OF d p t acc] False e r nv show ?thesis
        by (auto simp: Number_isNaN_def)
    qed
  qed
qed

lemma buildFields_object:
  assumes "distinct (map fst schema)"
    and "''__proto__'' \<notin> fst ` set schema"
    and "\<forall>(n, c) \<in> set schema. nullish (lookup src (sourceKey n c))
           \<or> (\<exists>r. converted c (lookup src (sourceKey n c)) = Inr r)"
  shows "buildFields (JObj src) schema = Inr (map (recorded src) (filter (retained src) schema))"
  using buildFields_loop_object [OF assms, of "[]"] by (simp add: buildFields_def)

lemma buildFields_loop_raises:
  assumes "\<not> (\<forall>(n, c) \<in> set schema. nullish (lookup src (sourceKey n c))
           \<or> (\<exists>r. converted c (lookup src (sourceKey n c)) = Inr r))"
  shows "\<exists>e. buildFields_loop (JObj src) schema acc = Inl e"
  using assms
proof (induction schema arbitrary: acc)
  case Nil
  then show ?case by simp
next
  case (Cons a schema)
  obtain n c where a: "a = (n, c)" by (cases a)
  let ?v = "lookup src (sourceKey n c)"
  show ?case
  proof (cases "nullish ?v \<or> (\<exists>r. converted c ?v = Inr r)")
    case True
    with Cons.prems a have rest: "\<not> (\<forall>(n, c) \<in> set schema. nullish (lookup src (sourceKey n c))
           \<or> (\<exists>r. converted c (lookup src (sourceKey n c)) = Inr r))"
      by auto
    show ?thesis
    proof (cases "nullish ?v")
      case True
      with Cons.IH [OF rest] a show ?thesis by simp
    next
      case False
      with True obtain r where "converted c ?v = Inr r" by blast
      with Cons.IH [OF rest] a False show ?thesis by simp
    qed
  next
    case False
    then obtain e where "converted c ?v = Inl e"
      by (cases "converted c ?v") auto
    with False a show ?thesis by simp
  qed
qed

lemma names_of_filter:
  "distinct (map fst xs) \<Longrightarrow>
     map fst (filter Q xs) = filter (\<lambda>n. n \<in> fst ` set (filter Q xs)) (map fst xs)"
proof (induction xs)
  case Nil
  then show ?case by simp
next
  case (Cons a xs)
  then have fresh: "fst a \<notin> fst ` set xs" and d: "distinct (map fst xs)"
    by auto
  have same: "filter (\<lambda>n. n \<in> insert (fst a) (fst ` set (filter Q xs))) (map fst xs)
      = filter (\<lambda>n. n \<in> fst ` set (filter Q xs)) (map fst xs)"
  proof (rule filter_cong [OF refl])
    fix x
    assume "x \<in> set (map fst xs)"
    moreover have "fst a \<notin> set (map fst xs)"
      using Cons.prems by simp
    ultimately have "x \<noteq> fst a" by blast
    then show "(x \<in> insert (fst a) (fst ` set (filter Q xs))) = (x \<in> fst ` set (filter Q xs))"
      by simp
  qed
  show ?case
  proof (cases "Q a")
    case True
    with Cons.IH [OF d] same show ?thesis by simp
  next
    case False
    have "fst a \<notin> fst ` set (filter Q xs)"
      using fresh by auto
    with False Cons.IH [OF d] show ?thesis by simp
  qed
qed

lemma fst_recorded [simp]: "fst (recorded src e) = fst e"
  by (cases e) (simp add: recorded_def)

lemma retained_name_iff:
  assumes "distinct (map fst schema)" and "(n, c) \<in> set schema"
  shows "n \<in> fst ` set (filter (retained src) schema) \<longleftrightarrow> retained src (n, c)"
proof
  assume "n \<in> fst ` set (filter (retained src) schema)"
  then obtain c' where c': "(n, c') \<in> set schema" "retained src (n, c')"
    by auto
  from assms c'(1) have "c' = c"
    by (meson eq_key_imp_eq_value)
  with c'(2) show "retained src (n, c)" by simp
next
  assume "retained src (n, c)"
  with assms(2) show "n \<in> fst ` set (filter (retained src) schema)"
    by force
qed

lemma not_retained_iff:
  assumes "converted c (lookup src (sourceKey n c)) = Inr r"
  shows "\<not> retained src (n, c) \<longleftrightarrow>
     lookup src (sourceKey n c) = JUndefined \<or> lookup src (sourceKey n c) = JNull
     \<or> converted c (lookup src (sourceKey n c)) = Inr JNull
     \<or> converted c (lookup src (sourceKey n c)) = Inr JUndefined
     \<or> converted c (lookup src (sourceKey n c)) = Inr (JNum NaN)"
  using assms by (auto simp: retained_def nullish_def)

text \<open>
  The four shipped schemas have distinct keys, none of them \<^verbatim>\<open>__proto__\<close>, and
  converters that return on every value that has a number and throw a TypeError on the
  others.
\<close>

lemma converter_cases:
  assumes "(convertible v \<longrightarrow> (\<exists>r. f v = Inr r)) \<and> (\<not> convertible v \<longrightarrow> f v = Inl TypeError)"
  shows "(convertible v \<longrightarrow> (\<exists>r. converted \<lparr>type = t, source = s, convert = Some f\<rparr> v = Inr r))
       \<and> (\<not> convertible v \<longrightarrow> converted \<lparr>type = t, source = s, convert = Some f\<rparr> v = Inl TypeError)"
  using assms by (simp add: converted_def)

lemmas shipped_converters =
  converter_cases [of _ fahrenheitToCelsius, OF fahrenheitToCelsius_convertible]
  converter_cases [of _ inHgToHPa, OF inHgToHPa_convertible]
  converter_cases [of _ inHgToHPaTrend, OF inHgToHPaTrend_convertible]
  converter_cases [of _ mphToMs, OF mphToMs_convertible]
  converter_cases [of _ tipsToMm, OF tipsToMm_convertible]

lemma converted_plain [simp]: "converted \<lparr>type = t, source = s, convert = None\<rparr> v = Inr v"
  by (simp add: converted_def)

lemma OUTDOOR_SCHEMA_converters:
  "\<forall>(n, c) \<in> set OUTDOOR_SCHEMA.
     (convert c = None \<or> convertible v \<longrightarrow> (\<exists>r. converted c v = Inr r))
     \<and> (convert c \<noteq> None \<and> \<not> convertible v \<longrightarrow> converted c v = Inl TypeError)"
  using shipped_converters [of v] by (simp add: OUTDOOR_SCHEMA_def)

lemma INDOOR_SCHEMA_converters:
  "\<forall>(n, c) \<in> set INDOOR_SCHEMA.
     (convert c = None \<or> convertible v \<longrightarrow> (\<exists>r. converted c v = Inr r))
     \<and> (convert c \<noteq> None \<and> \<not> convertible v \<longrightarrow> converted c v = Inl TypeError)"
  using shipped_converters [of v] by (simp add: INDOOR_SCHEMA_def)

lemma BAROMETER_SCHEMA_converters:
  "\<forall>(n, c) \<in> set BAROMETER_SCHEMA.
     (convert c = None \<or> convertible v \<longrightarrow> (\<exists>r. converted c v = Inr r))
     \<and> (convert c \<noteq> None \<and> \<not> convertible v \<longrightarrow> converted c v = Inl TypeError)"
  using shipped_converters [of v] by (simp add: BAROMETER_SCHEMA_def)

lemma FIELD_SCHEMA_converters:
  "\<forall>(n, c) \<in> set FIELD_SCHEMA.
     (convert c = None \<or> convertible v \<longrightarrow> (\<exists>r. converted c v = Inr r))
     \<and> (convert c \<noteq> None \<and> \<not> convertible v \<longrightarrow> converted c v = Inl TypeError)"
  using shipped_converters [of v] by (simp add: FIELD_SCHEMA_def)

lemma OUTDOOR_SCHEMA_keys:
  "distinct (map fst OUTDOOR_SCHEMA) \<and> ''__proto__'' \<notin> set (map fst OUTDOOR_SCHEMA)"
  by code_simp

lemma INDOOR_SCHEMA_keys:
  "distinct (map fst INDOOR_SCHEMA) \<and> ''__proto__'' \<notin> set (map fst INDOOR_SCHEMA)"
  by code_simp

lemma BAROMETER_SCHEMA_keys:
  "distinct (map fst BAROMETER_SCHEMA) \<and> ''__proto__'' \<notin> set (map fst BAROMETER_SCHEMA)"
  by code_simp

lemma FIELD_SCHEMA_keys:
  "distinct (map fst FIELD_SCHEMA) \<and> ''__proto__'' \<notin> set (map fst FIELD_SCHEMA)"
  by code_simp

text \<open>
  Claim C1, as amended. The key read is \<^verbatim>\<open>config.source || fieldName\<close> and the
  value recorded is the converter's result, or the value read when there is no converter.
  For a sub-report that is an object and a schema with distinct keys, none of them
  \<^verbatim>\<open>__proto__\<close>: when every converter returns on the source value it is given,
  \<open>buildFields\<close> returns a field mapping. A schema field is missing from the mapping
  exactly when its source value is \<^verbatim>\<open>undefined\<close> (absent) or \<^verbatim>\<open>null\<close>, or the
  value after conversion is \<^verbatim>\<open>null\<close>, \<^verbatim>\<open>undefined\<close> or the Number \<^verbatim>\<open>NaN\<close>. A
  field in the mapping carries the converted value and the schema's type; the fields keep
  the schema's order; and the encoded line is made of one segment for each field of the
  mapping, so that an omitted field has no part in it. When a converter throws on the
  source value it is given, \<open>buildFields\<close> throws. In the four shipped schemas an entry
  without converter never throws, and a converter throws, a TypeError, exactly on the
  values that have no number.
\<close>

theorem buildFields_omits_exactly:
  assumes "distinct (map fst schema)" and "''__proto__'' \<notin> set (map fst schema)"
  shows "(\<forall>n c. sourceKey n c = (case source c of None \<Rightarrow> n | Some k \<Rightarrow> if k = [] then n else k))
     \<and> (\<forall>c v. converted c v = (case convert c of None \<Rightarrow> Inr v | Some f \<Rightarrow> f v))
     \<and> (if \<forall>(n, c) \<in> set schema.
              lookup src (sourceKey n c) = JUndefined \<or> lookup src (sourceKey n c) = JNull
              \<or> (\<exists>r. converted c (lookup src (sourceKey n c)) = Inr r)
         then \<exists>flds. buildFields (JObj src) schema = Inr flds
           \<and> (\<forall>(n, c) \<in> set schema.
                (n \<notin> fst ` set flds) =
                  (lookup src (sourceKey n c) = JUndefined \<or> lookup src (sourceKey n c) = JNull
                   \<or> converted c (lookup src (sourceKey n c)) = Inr JNull
                   \<or> converted c (lookup src (sourceKey n c)) = Inr JUndefined
                   \<or> converted c (lookup src (sourceKey n c)) = Inr (JNum NaN)))
           \<and> (\<forall>(n, b) \<in> set flds. \<exists>c. (n, c) \<in> set schema \<and> ftype b = type c
                  \<and> converted c (lookup src (sourceKey n c)) = Inr (value b))
           \<and> map fst flds = filter (\<lambda>n. n \<in> fst ` set flds) (map fst schema)
           \<and> toLineProtocol cmp m tgs flds ts =
               bind (tagStr cmp tgs) (\<lambda>tagString.
               bind (traverse encodeField flds) (\<lambda>segments.
                 Inr (if flds = [] then None
                      else Some (m @ '','' @ tagString @ '' '' @ join '','' segments @ '' ''
                                 @ NumberToString ts))))
         else \<exists>e. buildFields (JObj src) schema = Inl e)
     \<and> (\<forall>shipped \<in> set [OUTDOOR_SCHEMA, INDOOR_SCHEMA, BAROMETER_SCHEMA, FIELD_SCHEMA].
          distinct (map fst shipped) \<and> ''__proto__'' \<notin> set (map fst shipped)
          \<and> (\<forall>(n, c) \<in> set shipped.
                (convert c = None \<or> convertible v \<longrightarrow> (\<exists>r. converted c v = Inr r))
                \<and> (convert c \<noteq> None \<and> \<not> convertible v \<longrightarrow> converted c v = Inl TypeError)))"
proof (intro conjI)
  show "\<forall>n c. sourceKey n c = (case source c of None \<Rightarrow> n | Some k \<Rightarrow> if k = [] then n else k)"
    by (simp add: sourceKey_def split: option.splits)
  show "\<forall>c v. converted c v = (case convert c of None \<Rightarrow> Inr v | Some f \<Rightarrow> f v)"
    by (simp add: converted_def split: option.splits)
  show "\<forall>shipped \<in> set [OUTDOOR_SCHEMA, INDOOR_SCHEMA, BAROMETER_SCHEMA, FIELD_SCHEMA].
          distinct (map fst shipped) \<and> ''__proto__'' \<notin> set (map fst shipped)
          \<and> (\<forall>(n, c) \<in> set shipped.
                (convert c = None \<or> convertible v \<longrightarrow> (\<exists>r. converted c v = Inr r))
                \<and> (convert c \<noteq> None \<and> \<not> convertible v \<longrightarrow> converted c v = Inl TypeError))"
    using OUTDOOR_SCHEMA_keys INDOOR_SCHEMA_keys BAROMETER_SCHEMA_keys FIELD_SCHEMA_keys
      OUTDOOR_SCHEMA_converters [of v] INDOOR_SCHEMA_converters [of v]
      BAROMETER_SCHEMA_converters [of v] FIELD_SCHEMA_converters [of v]
    by simp
  let ?returns = "\<forall>(n, c) \<in> set schema.
              lookup src (sourceKey n c) = JUndefined \<or> lookup src (sourceKey n c) = JNull
              \<or> (\<exists>r. converted c (lookup src (sourceKey n c)) = Inr r)"
  have returns: "?returns \<longleftrightarrow> (\<forall>(n, c) \<in> set schema. nullish (lookup src (sourceKey n c))
           \<or> (\<exists>r. converted c (lookup src (sourceKey n c)) = Inr r))"
    by (auto simp: nullish_def)
  have np: "''__proto__'' \<notin> fst ` set schema"
    using assms(2) by simp
  let ?flds = "map (recorded src) (filter (retained src) schema)"
  have built: "\<exists>flds. buildFields (JObj src) schema = Inr flds
           \<and> (\<forall>(n, c) \<in> set schema.
                (n \<notin> fst ` set flds) =
                  (lookup src (sourceKey n c) = JUndefined \<or> lookup src (sourceKey n c) = JNull
                   \<or> converted c (lookup src (sourceKey n c)) = Inr JNull
                   \<or> converted c (lookup src (sourceKey n c)) = Inr JUndefined
                   \<or> converted c (lookup src (sourceKey n c)) = Inr (JNum NaN)))
           \<and> (\<forall>(n, b) \<in> set flds. \<exists>c. (n, c) \<in> set schema \<and> ftype b = type c
                  \<and> converted c (lookup src (sourceKey n c)) = Inr (value b))
           \<and> map fst flds = filter (\<lambda>n. n \<in> fst ` set flds) (map fst schema)
           \<and> toLineProtocol cmp m tgs flds ts =
               bind (tagStr cmp tgs) (\<lambda>tagString.
               bind (traverse encodeField flds) (\<lambda>segments.
                 Inr (if flds = [] then None
                      else Some (m @ '','' @ tagString @ '' '' @ join '','' segments @ '' ''
                                 @ NumberToString ts))))"
    if r: ?returns
  proof -
    from r have r': "\<forall>(n, c) \<in> set schema. nullish (lookup src (sourceKey n c))
           \<or> (\<exists>r. converted c (lookup src (sourceKey n c)) = Inr r)"
      using returns by blast
    have b: "buildFields (JObj src) schema = Inr ?flds"
      by (rule buildFields_object [OF assms(1) np r'])
    have names: "map fst ?flds = map fst (filter (retained src) schema)"
      by simp
    then have name_set: "fst ` set ?flds = fst ` set (filter (retained src) schema)"
      by (metis set_map)
    have omit: "\<forall>(n, c) \<in> set schema.
          (n \<notin> fst ` set ?flds) =
            (lookup src (sourceKey n c) = JUndefined \<or> lookup src (sourceKey n c) = JNull
             \<or> converted c (lookup src (sourceKey n c)) = Inr JNull
             \<or> converted c (lookup src (sourceKey n c)) = Inr JUndefined
             \<or> converted c (lookup src (sourceKey n c)) = Inr (JNum NaN))"
    proof (intro ballI, clarify)
      fix n c
      assume nc: "(n, c) \<in> set schema"
      show "(n \<notin> fst ` set ?flds) =
            (lookup src (sourceKey n c) = JUndefined \<or> lookup src (sourceKey n c) = JNull
             \<or> converted c (lookup src (sourceKey n c)) = Inr JNull
             \<or> converted c (lookup src (sourceKey n c)) = Inr JUndefined
             \<or> converted c (lookup src (sourceKey n c)) = Inr (JNum NaN))"
      proof (cases "nullish (lookup src (sourceKey n c))")
        case True
        then have "\<not> retained src (n, c)"
          by (simp add: retained_def)
        with True show ?thesis
          unfolding name_set retained_name_iff [OF assms(1) nc] by (auto simp: nullish_def)
      next
        case False
        with r' nc obtain v' where "converted c (lookup src (sourceKey n c)) = Inr v'"
          by auto
        then show ?thesis
          unfolding name_set retained_name_iff [OF assms(1) nc] by (rule not_retained_iff)
      qed
    qed
    have vals: "\<forall>(n, b) \<in> set ?flds. \<exists>c. (n, c) \<in> set schema \<and> ftype b = type c
            \<and> converted c (lookup src (sourceKey n c)) = Inr (value b)"
      by (auto simp: recorded_def retained_def)
    have order: "map fst ?flds = filter (\<lambda>n. n \<in> fst ` set ?flds) (map fst schema)"
      unfolding name_set names by (rule names_of_filter [OF assms(1)])
    have line: "toLineProtocol cmp m tgs ?flds ts =
               bind (tagStr cmp tgs) (\<lambda>tagString.
               bind (traverse encodeField ?flds) (\<lambda>segments.
                 Inr (if ?flds = [] then None
                      else Some (m @ '','' @ tagString @ '' '' @ join '','' segments @ '' ''
                                 @ NumberToString ts))))"
      unfolding toLineProtocol_assembly fieldStr_def
      by (cases "traverse encodeField ?flds") simp_all
    from b omit vals order line show ?thesis by blast
  qed
  have raised: "\<exists>e. buildFields (JObj src) schema = Inl e" if "\<not> ?returns"
  proof -
    from that have "\<not> (\<forall>(n, c) \<in> set schema. nullish (lookup src (sourceKey n c))
           \<or> (\<exists>r. converted c (lookup src (sourceKey n c)) = Inr r))"
      using returns by blast
    then show ?thesis
      unfolding buildFields_def by (rule buildFields_loop_raises)
  qed
  show "if ?returns
         then \<exists>flds. buildFields (JObj src) schema = Inr flds
           \<and> (\<forall>(n, c) \<in> set schema.
                (n \<notin> fst ` set flds) =
                  (lookup src (sourceKey n c) = JUndefined \<or> lookup src (sourceKey n c) = JNull
                   \<or> converted c (lookup src (sourceKey n c)) = Inr JNull
                   \<or> converted c (lookup src (sourceKey n c)) = Inr JUndefined
                   \<or> converted c (lookup src (sourceKey n c)) = Inr (JNum NaN)))
           \<and> (\<forall>(n, b) \<in> set flds. \<exists>c. (n, c) \<in> set schema \<and> ftype b = type c
                  \<and> converted c (lookup src (sourceKey n c)) = Inr (value b))
           \<and> map fst flds = filter (\<lambda>n. n \<in> fst ` set flds) (map fst schema)
           \<and> toLineProtocol cmp m tgs flds ts =
               bind (tagStr cmp tgs) (\<lambda>tagString.
               bind (traverse encodeField flds) (\<lambda>segments.
                 Inr (if flds = [] then None
                      else Some (m @ '','' @ tagString @ '' '' @ join '','' segments @ '' ''
                                 @ NumberToString ts))))
         else \<exists>e. buildFields (JObj src) schema = Inl e"
  proof (cases ?returns)
    case True
    show ?thesis
      unfolding if_P [OF True] by (rule built [OF True])
  next
    case False
    show ?thesis
      unfolding if_not_P [OF False] by (rule raised [OF False])
  qed
qed

text \<open>
  A schema with a source key, on a block that has that key: the field \<^verbatim>\<open>gust\<close> is
  read from \<^verbatim>\<open>wind_speed_hi_last_2_min\<close> and not from \<^verbatim>\<open>gust\<close>; \<^verbatim>\<open>hum\<close> is
  \<^verbatim>\<open>null\<close> and omitted; the string \<^verbatim>\<open>abc\<close> is not the Number \<^verbatim>\<open>NaN\<close>, is kept,
  and is written \<^verbatim>\<open>NaNi\<close>; and \<^verbatim>\<open>constructor\<close>, which the block inherits, is kept.
  The converter of the shipped field \<^verbatim>\<open>temp_in\<close> throws on an object with an entry
  \<^verbatim>\<open>toString\<close>.
\<close>

theorem buildFields_omits_exactly_witness:
  "distinct (map fst gust_schema) \<and> ''__proto__'' \<notin> set (map fst gust_schema)
   \<and> buildFields (JObj [(''wind_speed_hi_last_2_min'', JNum (Fin 10)), (''gust'', JNum (Fin 1)),
                         (''hum'', JNull), (''wind_dir_last'', JStr ''abc'')]) gust_schema
       = Inr [(''gust'', \<lparr>value = JNum (fl (447 / 100)), ftype = ''float''\<rparr>),
              (''wind_dir_last'', \<lparr>value = JStr ''abc'', ftype = ''int''\<rparr>),
              (''constructor'', \<lparr>value = JFunction ''Object'', ftype = ''float''\<rparr>)]
   \<and> toLineProtocol collation ''wind'' []
        [(''gust'', \<lparr>value = JNum (fl (447 / 100)), ftype = ''float''\<rparr>),
         (''wind_dir_last'', \<lparr>value = JStr ''abc'', ftype = ''int''\<rparr>),
         (''constructor'', \<lparr>value = JFunction ''Object'', ftype = ''float''\<rparr>)] (Fin 0)
       = Inr (Some ''wind, gust=4.47,wind_dir_last=NaNi,constructor=function Object() { [native code] } 0'')
   \<and> \<not> convertible (JObj [(''toString'', JNull)])
   \<and> converted \<lparr>type = ''float'', source = None, convert = Some fahrenheitToCelsius\<rparr>
         (JObj [(''toString'', JNull)]) = Inl TypeError"
proof -
  let ?src = "[(''wind_speed_hi_last_2_min'', JNum (Fin 10)), (''gust'', JNum (Fin 1)),
               (''hum'', JNull), (''wind_dir_last'', JStr ''abc'')]"
  let ?flds = "[(''gust'', \<lparr>value = JNum (fl (447 / 100)), ftype = ''float''\<rparr>),
                (''wind_dir_last'', \<lparr>value = JStr ''abc'', ftype = ''int''\<rparr>),
                (''constructor'', \<lparr>value = JFunction ''Object'', ftype = ''float''\<rparr>)]"
  have d: "distinct (map fst gust_schema)"
    by code_simp
  have p: "''__proto__'' \<notin> set (map fst gust_schema)"
    by code_simp
  have e: "buildFields (JObj ?src) gust_schema = Inr ?flds"
    by code_simp
  note T = buildFields_omits_exactly [OF d p, of ?src collation "''wind''" "[]" "Fin 0",
      where v = "JObj [(''toString'', JNull)]"]
  from conjunct1 [OF conjunct2 [OF conjunct2 [OF T]]] e
  have "toLineProtocol collation ''wind'' [] ?flds (Fin 0) =
               bind (tagStr collation []) (\<lambda>tagString.
               bind (traverse encodeField ?flds) (\<lambda>segments.
                 Inr (if ?flds = [] then None
                      else Some (''wind'' @ '','' @ tagString @ '' '' @ join '','' segments @ '' ''
                                 @ NumberToString (Fin 0)))))"
    by (auto split: if_splits)
  also have "\<dots> = Inr (Some ''wind, gust=4.47,wind_dir_last=NaNi,constructor=function Object() { [native code] } 0'')"
    by code_simp
  finally have line: "toLineProtocol collation ''wind'' [] ?flds (Fin 0)
      = Inr (Some ''wind, gust=4.47,wind_dir_last=NaNi,constructor=function Object() { [native code] } 0'')" .
  have n: "\<not> convertible (JObj [(''toString'', JNull)])"
    by simp
  from conjunct2 [OF conjunct2 [OF conjunct2 [OF T]]]
  have "\<forall>(n, c) \<in> set INDOOR_SCHEMA.
          (convert c = None \<or> convertible (JObj [(''toString'', JNull)]) \<longrightarrow>
             (\<exists>r. converted c (JObj [(''toString'', JNull)]) = Inr r))
          \<and> (convert c \<noteq> None \<and> \<not> convertible (JObj [(''toString'', JNull)]) \<longrightarrow>
             converted c (JObj [(''toString'', JNull)]) = Inl TypeError)"
    by simp
  then have c: "converted \<lparr>type = ''float'', source = None, convert = Some fahrenheitToCelsius\<rparr>
         (JObj [(''toString'', JNull)]) = Inl TypeError"
    by (simp add: INDOOR_SCHEMA_def)
  show ?thesis
    by (intro conjI d p e line n c)
qed

text \<open>
  The claim as worded fails for a malformed field: an indoor block whose temperature is
  an object with an entry \<^verbatim>\<open>toString\<close> makes the extractor throw a TypeError.
\<close>

theorem buildFields_raises_counterexample:
  "buildFields (JObj [(''temp_in'', JObj [(''toString'', JNum (Fin 0))])]) INDOOR_SCHEMA
     = Inl TypeError"
  by code_simp

section \<open>The two nodes\<close>

lemma truthy_opt_get: "truthy (opt_get v k) \<Longrightarrow> \<exists>kvs. v = JObj kvs"
  by (cases v) (simp_all add: opt_get_def)

lemma get_not_nullish: "\<not> nullish v \<Longrightarrow> get v k = Inr (opt_get v k)"
  by (cases v) (simp_all add: get_def opt_get_def nullish_def)

lemma get_truthy: "truthy v \<Longrightarrow> get v k = Inr (opt_get v k)"
  by (cases v) (simp_all add: get_def opt_get_def)

lemma truthy_opt_index0: "truthy (opt_index0 v) \<Longrightarrow> \<not> nullish v"
  by (cases v) (simp_all add: opt_index0_def nullish_def)

text \<open>
  A block with an empty extraction pushes no line; every line a category block pushes
  is the encoding of a non-empty field mapping.
\<close>

lemma toLineProtocol_no_field:
  "toLineProtocol cmp m tgs [] ts = bind (tagStr cmp tgs) (\<lambda>tagString. Inr None)"
  by (simp add: toLineProtocol_assembly fieldStr_def)

lemma push_line_empty:
  assumes "buildFields block schema = Inr []"
  shows "push_line cmp m tgs block schema ts =
     (if \<forall>(k, v) \<in> set tgs. convertible v then Inr [] else Inl TypeError)"
proof (cases "\<forall>(k, v) \<in> set tgs. convertible v")
  case True
  then obtain t where "tagStr cmp tgs = Inr t"
    using tagStr_convertible [of tgs cmp] by blast
  with assms True show ?thesis
    by (simp add: push_line_def toLineProtocol_no_field)
next
  case False
  then have "tagStr cmp tgs = Inl TypeError"
    using tagStr_convertible [of tgs cmp] by blast
  with assms False show ?thesis
    by (simp add: push_line_def toLineProtocol_no_field)
qed

lemma push_line_encoded:
  assumes "push_line cmp m tgs block schema ts = Inr ls" and "l \<in> set ls"
  shows "\<exists>flds. flds \<noteq> [] \<and> buildFields block schema = Inr flds
           \<and> toLineProtocol cmp m tgs flds ts = Inr (Some l)"
proof -
  from assms(1) obtain flds line where b: "buildFields block schema = Inr flds"
    and t: "toLineProtocol cmp m tgs flds ts = Inr line"
    and ls: "ls = (case line of Some l \<Rightarrow> if l \<noteq> [] then [l] else [] | None \<Rightarrow> [])"
    by (auto simp: push_line_def bind_eq_Inr)
  from ls assms(2) have "line = Some l"
    by (cases line) (auto split: if_splits)
  with t have s: "toLineProtocol cmp m tgs flds ts = Inr (Some l)"
    by simp
  from toLineProtocol_Some [OF this] b s show ?thesis by blast
qed

lemma guarded_push_encoded:
  assumes "(if c then push_line cmp m tgs block schema ts else Inr []) = Inr ls" and "l \<in> set ls"
  shows "\<exists>m tgs flds ts. flds \<noteq> [] \<and> toLineProtocol cmp m tgs flds ts = Inr (Some l)"
proof (cases c)
  case True
  with assms(1) have "push_line cmp m tgs block schema ts = Inr ls" by simp
  from push_line_encoded [OF this assms(2)] show ?thesis
    by blast
next
  case False
  with assms show ?thesis by simp
qed

lemma weather_lines_encoded:
  assumes "weather_lines cmp data = Inr lines" and "l \<in> set lines"
  shows "\<exists>m tgs flds ts. flds \<noteq> [] \<and> toLineProtocol cmp m tgs flds ts = Inr (Some l)"
proof -
  from assms(1) obtain seconds ob ib bb l1 l2 l3 where
        o: "(if truthy ob
             then bind (get data ''did'') (\<lambda>did.
                    push_line cmp (measurement (outdoor CONFIG))
                      (with_sensor_id (tags (outdoor CONFIG)) did) ob OUTDOOR_SCHEMA
                      (js_mul seconds (Fin 1000000000)))
             else Inr []) = Inr l1"
    and i: "(if truthy ib
             then push_line cmp (measurement (indoor CONFIG)) (tags (indoor CONFIG)) ib INDOOR_SCHEMA
                    (js_mul seconds (Fin 1000000000))
             else Inr []) = Inr l2"
    and b: "(if truthy bb
             then push_line cmp (measurement (barometer CONFIG)) (tags (barometer CONFIG)) bb
                    BAROMETER_SCHEMA (js_mul seconds (Fin 1000000000))
             else Inr []) = Inr l3"
    and lines: "lines = l1 @ l2 @ l3"
    unfolding weather_lines_def Let_def bind_eq_Inr by blast
  from assms(2) lines consider "l \<in> set l1" | "l \<in> set l2" | "l \<in> set l3" by auto
  then show ?thesis
  proof cases
    case 1
    show ?thesis
    proof (cases "truthy ob")
      case True
      with o obtain did where "push_line cmp (measurement (outdoor CONFIG))
          (with_sensor_id (tags (outdoor CONFIG)) did) ob OUTDOOR_SCHEMA
          (js_mul seconds (Fin 1000000000)) = Inr l1"
        by (auto simp: bind_eq_Inr)
      from push_line_encoded [OF this 1] show ?thesis
        by blast
    next
      case False
      with o 1 show ?thesis by simp
    qed
  next
    case 2
    from guarded_push_encoded [OF i 2] show ?thesis .
  next
    case 3
    from guarded_push_encoded [OF b 3] show ?thesis .
  qed
qed

lemma weather_convert_msg:
  assumes "weather_convert cmp payload = Inr (Return_msg out)"
  shows "\<exists>data lines. weather_lines cmp data = Inr lines \<and> lines \<noteq> []
           \<and> out = JStr (join [CHR 0x0A] lines)"
  using assms by (auto simp: weather_convert_def bind_eq_Inr split: if_splits)

lemma airlink_convert_msg:
  assumes "airlink_convert cmp payload = Inr (Return_msg out)"
  shows "\<exists>tgs flds ts l. flds \<noteq> [] \<and> out = JStr l
           \<and> toLineProtocol cmp (measurement AIRLINK_CONFIG) tgs flds ts = Inr (Some l)"
proof -
  from assms obtain tgs flds ts line where f: "flds \<noteq> []"
    and t: "toLineProtocol cmp (measurement AIRLINK_CONFIG) tgs flds ts = Inr line"
    and o: "out = (case line of Some l \<Rightarrow> JStr l | None \<Rightarrow> JNull)"
    by (auto simp: airlink_convert_def bind_eq_Inr Let_def split: if_splits)
  from f t obtain l where "line = Some l"
    using toLineProtocol_None_iff [of cmp "measurement AIRLINK_CONFIG" tgs flds ts]
    by (cases line) auto
  with f t o show ?thesis by auto
qed

text \<open>The samples, run through the two nodes.\<close>

lemma indoor_block_no_value_fields: "buildFields indoor_block_no_value INDOOR_SCHEMA = Inr []"
  by code_simp

lemma outdoor_block_no_value_fields: "buildFields outdoor_block_no_value OUTDOOR_SCHEMA = Inr []"
  by code_simp

lemma air_block_no_value_fields: "buildFields (JObj air_block_no_value) FIELD_SCHEMA = Inr []"
  by code_simp

lemma weather_data_result:
  "weather_convert collation (JObj [(''data'', JObj weather_data)]) =
     Inr (Return_msg (JStr
       (''outdoor_conditions,friendly_name=Davis'' @ [backslash] @ '' Outdoor'' @ [backslash]
        @ '' ISS,location=outside,sensor_id=ABC,source=davis temp=0,hum=50 1700000000000000000'')))"
  by code_simp

lemma airlink_data_result:
  "airlink_convert collation (JObj [(''data'', JObj airlink_data)]) =
     Inr (Return_msg (JStr
       (''air_quality,friendly_name=Davis'' @ [backslash]
        @ '' AirLink,location=outside,sensor_id=unknown,source=davis_airlink temp=0,pm_1_last=7i 1700000000000000000'')))"
  by code_simp

lemma CONFIG_tags_convertible:
  "(\<forall>(k, v) \<in> set (tags (outdoor CONFIG)). convertible v)
   \<and> (\<forall>(k, v) \<in> set (tags (indoor CONFIG)). convertible v)
   \<and> (\<forall>(k, v) \<in> set (tags (barometer CONFIG)). convertible v)"
  by (simp add: CONFIG_def)

lemma with_sensor_id_convertible:
  "convertible did \<Longrightarrow> \<forall>(k, v) \<in> set (with_sensor_id (tags (outdoor CONFIG)) did). convertible v"
  by (simp add: with_sensor_id_def CONFIG_def js_or_def)




text \<open>
  Claim C8, as amended. The WeatherLink Live node warns of an invalid payload structure
  and returns \<^verbatim>\<open>null\<close>, without throwing, exactly when \<^verbatim>\<open>data.ts\<close> or
  \<^verbatim>\<open>data.conditions\<close> is missing or falsy (the tests are \<^verbatim>\<open>!payload?.data?.ts\<close> and
  \<^verbatim>\<open>!payload?.data?.conditions\<close>). The AirLink node does so exactly when
  \<^verbatim>\<open>data.ts\<close> or \<^verbatim>\<open>data.conditions[0]\<close> is missing or falsy, or the
  \<^verbatim>\<open>data_structure_type\<close> of that first entry is not the number 6. In every other
  case the node goes on to the conversion.
\<close>

theorem structural_validation:
  "(weather_convert cmp payload = Inr (Return_null_warn ''Invalid payload structure''))
     = (\<not> truthy (opt_get (opt_get payload ''data'') ''ts'')
        \<or> \<not> truthy (opt_get (opt_get payload ''data'') ''conditions''))
   \<and> (airlink_convert cmp payload = Inr (Return_null_warn ''Invalid AirLink JSON structure - skipped''))
     = (\<not> truthy (opt_get (opt_get payload ''data'') ''ts'')
        \<or> \<not> truthy (opt_index0 (opt_get (opt_get payload ''data'') ''conditions''))
        \<or> opt_get (opt_index0 (opt_get (opt_get payload ''data'') ''conditions'')) ''data_structure_type''
            \<noteq> JNum (Fin 6))"
proof (intro conjI)
  show "(weather_convert cmp payload = Inr (Return_null_warn ''Invalid payload structure''))
     = (\<not> truthy (opt_get (opt_get payload ''data'') ''ts'')
        \<or> \<not> truthy (opt_get (opt_get payload ''data'') ''conditions''))"
    by (auto simp: weather_convert_def bind_eq_Inr split: if_splits)
next
  let ?data = "opt_get payload ''data''"
  let ?air = "opt_index0 (opt_get ?data ''conditions'')"
  show "(airlink_convert cmp payload = Inr (Return_null_warn ''Invalid AirLink JSON structure - skipped''))
     = (\<not> truthy (opt_get ?data ''ts'') \<or> \<not> truthy ?air
        \<or> opt_get ?air ''data_structure_type'' \<noteq> JNum (Fin 6))"
  proof (cases "truthy (opt_get ?data ''ts'') \<and> truthy ?air")
    case False
    then show ?thesis by (auto simp: airlink_convert_def)
  next
    case True
    then obtain d where d: "?data = JObj d"
      using truthy_opt_get by blast
    then obtain p where p: "payload = JObj p"
      by (cases payload) (simp_all add: opt_get_def)
    from True have nn: "\<not> nullish (lookup d ''conditions'')"
      using truthy_opt_index0 d by auto
    from True have air: "get ?air ''data_structure_type'' = Inr (opt_get ?air ''data_structure_type'')"
      by (simp add: get_truthy)
    show ?thesis
      using True d p nn air
      by (auto simp: airlink_convert_def get_index0_def bind_eq_Inr Let_def split: if_splits)
  qed
qed

text \<open>
  A reading without \<^verbatim>\<open>ts\<close> is rejected by the first node, an outdoor reading is
  rejected by the AirLink node, and the first sample passes the first node's test.
\<close>

theorem structural_validation_witness:
  "weather_convert collation (JObj [(''data'', JObj [(''conditions'', JArr [outdoor_block])])])
     = Inr (Return_null_warn ''Invalid payload structure'')
   \<and> airlink_convert collation (JObj [(''data'', JObj weather_data)])
     = Inr (Return_null_warn ''Invalid AirLink JSON structure - skipped'')
   \<and> weather_convert collation (JObj [(''data'', JObj weather_data)])
     \<noteq> Inr (Return_null_warn ''Invalid payload structure'')"
  using structural_validation [of collation "JObj [(''data'', JObj [(''conditions'', JArr [outdoor_block])])]"]
    structural_validation [of collation "JObj [(''data'', JObj weather_data)]"]
  by (simp add: lookup_def inherited_def Object_prototype_functions_def weather_data_def
      opt_index0_def outdoor_block_def)

text \<open>
  The claim as worded fails for the timestamp 0: both keys are present, and the reading
  is rejected.
\<close>

theorem epoch_timestamp_counterexample:
  "map_of weather_data_epoch ''ts'' = Some (JNum (Fin 0))
   \<and> map_of weather_data_epoch ''conditions'' = Some (JArr [outdoor_block])
   \<and> weather_convert collation (JObj [(''data'', JObj weather_data_epoch)])
     = Inr (Return_null_warn ''Invalid payload structure'')"
  by code_simp

text \<open>
  On entries that are not \<^verbatim>\<open>null\<close>, \<^verbatim>\<open>find\<close> returns the first entry with the
  discriminator, or \<^verbatim>\<open>undefined\<close>.
\<close>

lemma find_first_find:
  assumes "\<forall>c \<in> set cs. \<not> nullish c" and "\<And>c. \<not> nullish c \<Longrightarrow> p c = Inr (P c)"
  shows "find_first p cs = Inr (case List.find P cs of None \<Rightarrow> JUndefined | Some c \<Rightarrow> c)"
  using assms(1) by (induction cs) (simp_all add: assms(2))

lemma is_outdoor_not_nullish:
  "\<not> nullish c \<Longrightarrow>
     is_outdoor c = Inr (opt_get c ''data_structure_type'' = JNum (Fin 1)
                         \<and> opt_get c ''txid'' = JNum (Fin 1))"
  by (simp add: is_outdoor_def get_not_nullish)

lemma has_structure_type_not_nullish:
  "\<not> nullish c \<Longrightarrow> has_structure_type n c = Inr (opt_get c ''data_structure_type'' = JNum (Fin n))"
  by (simp add: has_structure_type_def get_not_nullish)

text \<open>No line collected, no payload sent.\<close>

lemma weather_lines_empty:
  assumes "truthy (lookup d ''ts'')" and "convertible (lookup d ''ts'')"
    and "lookup d ''conditions'' = JArr cs"
    and "\<forall>c \<in> set cs. c \<noteq> JNull \<and> c \<noteq> JUndefined"
    and "case List.find (\<lambda>c. opt_get c ''data_structure_type'' = JNum (Fin 1)
                             \<and> opt_get c ''txid'' = JNum (Fin 1)) cs of
           None \<Rightarrow> True
         | Some b \<Rightarrow> buildFields b OUTDOOR_SCHEMA = Inr [] \<and> convertible (lookup d ''did'')"
    and "case List.find (\<lambda>c. opt_get c ''data_structure_type'' = JNum (Fin 4)) cs of
           None \<Rightarrow> True | Some b \<Rightarrow> buildFields b INDOOR_SCHEMA = Inr []"
    and "case List.find (\<lambda>c. opt_get c ''data_structure_type'' = JNum (Fin 3)) cs of
           None \<Rightarrow> True | Some b \<Rightarrow> buildFields b BAROMETER_SCHEMA = Inr []"
  shows "weather_lines cmp (JObj d) = Inr []"
proof -
  from assms(2) obtain seconds where s: "ToNumber (lookup d ''ts'') = Inr seconds"
    using ToNumber_convertible by blast
  let ?ts = "js_mul seconds (Fin 1000000000)"
  let ?P1 = "\<lambda>c. opt_get c ''data_structure_type'' = JNum (Fin 1) \<and> opt_get c ''txid'' = JNum (Fin 1)"
  let ?P4 = "\<lambda>c. opt_get c ''data_structure_type'' = JNum (Fin 4)"
  let ?P3 = "\<lambda>c. opt_get c ''data_structure_type'' = JNum (Fin 3)"
  have nn: "\<forall>c \<in> set cs. \<not> nullish c"
    using assms(4) by (simp add: nullish_def)
  have f1: "find_first is_outdoor cs = Inr (case List.find ?P1 cs of None \<Rightarrow> JUndefined | Some c \<Rightarrow> c)"
    by (rule find_first_find [OF nn]) (rule is_outdoor_not_nullish)
  have f4: "find_first (has_structure_type 4) cs
      = Inr (case List.find ?P4 cs of None \<Rightarrow> JUndefined | Some c \<Rightarrow> c)"
    by (rule find_first_find [OF nn]) (rule has_structure_type_not_nullish)
  have f3: "find_first (has_structure_type 3) cs
      = Inr (case List.find ?P3 cs of None \<Rightarrow> JUndefined | Some c \<Rightarrow> c)"
    by (rule find_first_find [OF nn]) (rule has_structure_type_not_nullish)
  have o: "(if truthy (case List.find ?P1 cs of None \<Rightarrow> JUndefined | Some c \<Rightarrow> c)
            then push_line cmp (measurement (outdoor CONFIG))
                   (with_sensor_id (tags (outdoor CONFIG)) (lookup d ''did''))
                   (case List.find ?P1 cs of None \<Rightarrow> JUndefined | Some c \<Rightarrow> c) OUTDOOR_SCHEMA ?ts
            else Inr []) = Inr []"
  proof (cases "List.find ?P1 cs")
    case None
    then show ?thesis by simp
  next
    case (Some b)
    with assms(5) have b: "buildFields b OUTDOOR_SCHEMA = Inr []" and c: "convertible (lookup d ''did'')"
      by simp_all
    from push_line_empty [OF b] with_sensor_id_convertible [OF c] Some show ?thesis
      by simp
  qed
  have i: "(if truthy (case List.find ?P4 cs of None \<Rightarrow> JUndefined | Some c \<Rightarrow> c)
            then push_line cmp (measurement (indoor CONFIG)) (tags (indoor CONFIG))
                   (case List.find ?P4 cs of None \<Rightarrow> JUndefined | Some c \<Rightarrow> c) INDOOR_SCHEMA ?ts
            else Inr []) = Inr []"
  proof (cases "List.find ?P4 cs")
    case None
    then show ?thesis by simp
  next
    case (Some b)
    with assms(6) have b: "buildFields b INDOOR_SCHEMA = Inr []"
      by simp
    from push_line_empty [OF b] CONFIG_tags_convertible Some show ?thesis
      by simp
  qed
  have r: "(if truthy (case List.find ?P3 cs of None \<Rightarrow> JUndefined | Some c \<Rightarrow> c)
            then push_line cmp (measurement (barometer CONFIG)) (tags (barometer CONFIG))
                   (case List.find ?P3 cs of None \<Rightarrow> JUndefined | Some c \<Rightarrow> c) BAROMETER_SCHEMA ?ts
            else Inr []) = Inr []"
  proof (cases "List.find ?P3 cs")
    case None
    then show ?thesis by simp
  next
    case (Some b)
    with assms(7) have b: "buildFields b BAROMETER_SCHEMA = Inr []"
      by simp
    from push_line_empty [OF b] CONFIG_tags_convertible Some show ?thesis
      by simp
  qed
  show ?thesis
    unfolding weather_lines_def Let_def
    by (simp only: get_object bind_Inr s assms(3) Array_find_def jsval.case f1 f4 f3 o i r append_Nil)
qed

lemma weather_convert_not_empty_string: "weather_convert cmp payload \<noteq> Inr (Return_msg (JStr []))"
proof
  assume "weather_convert cmp payload = Inr (Return_msg (JStr []))"
  from weather_convert_msg [OF this] obtain data lines
    where l: "weather_lines cmp data = Inr lines" "lines \<noteq> []" "join [CHR 0x0A] lines = []"
    by auto
  have "\<forall>x \<in> set lines. x \<noteq> []"
    using weather_lines_encoded [OF l(1)] toLineProtocol_nonempty by metis
  from join_lines_nonempty [OF l(2) this] l(3) show False by blast
qed

lemma airlink_convert_not_empty:
  "airlink_convert cmp payload \<noteq> Inr (Return_msg (JStr []))
   \<and> airlink_convert cmp payload \<noteq> Inr (Return_msg JNull)"
  using airlink_convert_msg [of cmp payload] toLineProtocol_nonempty by fastforce

lemma airlink_convert_empty:
  assumes "lookup pa ''data'' = JObj da" and "truthy (lookup da ''ts'')"
    and "convertible (lookup da ''ts'')"
    and "opt_index0 (lookup da ''conditions'') = JObj a"
    and "lookup a ''data_structure_type'' = JNum (Fin 6)"
    and "buildFields (JObj a) FIELD_SCHEMA = Inr []"
  shows "airlink_convert cmp (JObj pa) = Inr (Return_null_warn ''No valid data to write'')"
proof -
  from assms(3) obtain seconds where s: "ToNumber (lookup da ''ts'') = Inr seconds"
    using ToNumber_convertible by blast
  from assms(4) have "\<not> nullish (lookup da ''conditions'')"
    by (auto simp: nullish_def opt_index0_def)
  with assms s show ?thesis
    by (simp add: airlink_convert_def get_index0_def Let_def)
qed




lemma map_of_update: "map_of (AList.update k v al) k = Some v"
  by (simp add: update_conv')

text \<open>
  Claim C10, as amended. The \<^verbatim>\<open>sensor_id\<close> tag is \<^verbatim>\<open>data.did || 'unknown'\<close>: it is
  \<^verbatim>\<open>did\<close> when that value is truthy, as a non-empty string is, and the string
  \<^verbatim>\<open>unknown\<close> when \<^verbatim>\<open>did\<close> is absent, \<^verbatim>\<open>null\<close> or another falsy value such as
  the empty string.
\<close>

theorem sensor_id_tag:
  "map_of (with_sensor_id base did) ''sensor_id'' = Some (if truthy did then did else JStr ''unknown'')
   \<and> (s \<noteq> [] \<longrightarrow> map_of (with_sensor_id base (JStr s)) ''sensor_id'' = Some (JStr s))
   \<and> (map_of d ''did'' = None \<longrightarrow>
        map_of (with_sensor_id base (lookup d ''did'')) ''sensor_id'' = Some (JStr ''unknown''))
   \<and> (lookup d' ''did'' = JNull \<or> lookup d' ''did'' = JStr [] \<longrightarrow>
        map_of (with_sensor_id base (lookup d' ''did'')) ''sensor_id'' = Some (JStr ''unknown''))"
  by (auto simp: with_sensor_id_def js_or_def map_of_update lookup_def inherited_def
      Object_prototype_functions_def)

theorem sensor_id_tag_witness:
  "''ABC'' \<noteq> []
   \<and> map_of (with_sensor_id (tags (outdoor CONFIG)) (JStr ''ABC'')) ''sensor_id'' = Some (JStr ''ABC'')
   \<and> map_of weather_data_no_value ''did'' = None
   \<and> map_of (with_sensor_id (tags (outdoor CONFIG)) (lookup weather_data_no_value ''did'')) ''sensor_id''
       = Some (JStr ''unknown'')
   \<and> lookup [(''did'', JNull)] ''did'' = JNull
   \<and> map_of (with_sensor_id (tags (outdoor CONFIG)) (lookup [(''did'', JNull)] ''did'')) ''sensor_id''
       = Some (JStr ''unknown'')"
  using sensor_id_tag [of "tags (outdoor CONFIG)" JNull "''ABC''" weather_data_no_value "[(''did'', JNull)]"]
  by (simp add: weather_data_no_value_def lookup_def)

text \<open>
  The claim as worded fails for a device id that is present and empty: the tag is
  \<^verbatim>\<open>unknown\<close>, in the tag set and in the line the AirLink node sends.
\<close>

theorem empty_device_id_counterexample:
  "map_of airlink_data ''did'' = Some (JStr '''')
   \<and> map_of (with_sensor_id (tags AIRLINK_CONFIG) (lookup airlink_data ''did'')) ''sensor_id''
       = Some (JStr ''unknown'')
   \<and> airlink_convert collation (JObj [(''data'', JObj airlink_data)]) =
       Inr (Return_msg (JStr
         (''air_quality,friendly_name=Davis'' @ [backslash]
          @ '' AirLink,location=outside,sensor_id=unknown,source=davis_airlink temp=0,pm_1_last=7i 1700000000000000000'')))"
  by code_simp

end
